theory Spec2Isabelle
  imports Complex_Main "HOL-Library.Word" "HOL-Library.Log_Nat"
begin

section \<open>The overlay engine of the terminal client (terminaloverlay.cpp)\<close>

text \<open>
  The file embeds \<^verbatim>\<open>src/terminaloverlay.cpp\<close>: the overlay elements with their validity,
  the prediction engine with its round-trip estimator, the notification engine and the
  overlay manager.

  Conventions of the embedding.
  \<^item> \<^verbatim>\<open>uint64_t\<close> is \<open>64 word\<close>; \<^verbatim>\<open>int\<close> fields (rows, columns, colours, the score) are
    \<open>int\<close>, and the conversion \<^verbatim>\<open>uint64_t\<close> to \<^verbatim>\<open>int\<close> is written out (\<open>int_of_u64\<close>).
    Signed overflow of \<^verbatim>\<open>score++\<close> and \<^verbatim>\<open>new_col++\<close> is undefined in C++ and not modelled.
  \<^item> A \<^verbatim>\<open>double\<close> is the \<open>real\<close> it stands for, and every arithmetic operation on doubles
    rounds its exact result to the nearest IEEE binary64 number, ties to even
    (\<open>binary64\<close> below), one operation at a time: no fused multiply-add and no extended
    precision. Infinities and NaN are not modelled: the estimator is fed clock
    differences below \<open>2^64\<close>, and its values stay far below the largest double.
  \<^item> \<^verbatim>\<open>timestamp()\<close> is the process-wide millisecond clock. One call of an operation is
    modelled at one clock reading, the parameter \<open>now\<close>, with one exception: \<^verbatim>\<open>cull\<close> reads
    the clock once for \<open>now\<close> and then, through \<^verbatim>\<open>get_validity\<close>, twice for every element,
    and the model takes these readings as a further parameter, \<open>ticks\<close>.
  \<^item> \<^verbatim>\<open>assert\<close> is a branch of the model: with assertions compiled in, a failed assertion
    ends the operation with \<open>Inl AssertionFailed\<close>; with \<^verbatim>\<open>NDEBUG\<close> it is skipped.
  \<^item> Code that is declared in headers outside \<^verbatim>\<open>src/\<close> (the framebuffer's cursor moves,
    the cell constructor, libc's formatting and character widths) is taken as a parameter,
    collected in the record \<open>env\<close>.
\<close>

type_synonym u64 = "64 word"
type_synonym wchar = int

datatype Validity = Pending | Correct | IncorrectOrExpired

datatype error = AssertionFailed | BadCast

subsection \<open>The framebuffer, as the interface the overlay code uses\<close>

record Renditions =
  bold :: bool
  underlined :: bool
  foreground_color :: int
  background_color :: int

record Cell =
  contents :: "wchar list"
  width :: int
  renditions :: Renditions

record DrawState =
  get_width :: int
  get_height :: int
  get_cursor_row :: int
  get_cursor_col :: int
  cursor_visible :: bool
  origin_mode :: bool

text \<open>
  Modelled from the spec: the class Framebuffer (its header is not under \<^verbatim>\<open>src/\<close>) is,
  by section 6 of the spec, a draw state \<^verbatim>\<open>ds\<close> and a grid read by \<^verbatim>\<open>get_cell(r, c)\<close> and
  written through \<^verbatim>\<open>get_mutable_cell(r, c)\<close>; cells have value equality. The grid gives every
  position a cell: what the collaborator does off the grid is not specified.
\<close>

record Framebuffer =
  ds :: DrawState
  cells :: "int \<Rightarrow> int \<Rightarrow> Cell"

definition get_cell :: "Framebuffer \<Rightarrow> int \<Rightarrow> int \<Rightarrow> Cell" where
  "get_cell fb r c = cells fb r c"

definition set_cell :: "Framebuffer \<Rightarrow> int \<Rightarrow> int \<Rightarrow> Cell \<Rightarrow> Framebuffer" where
  "set_cell fb r c v = fb\<lparr>cells := (cells fb)(r := (cells fb r)(c := v))\<rparr>"

text \<open>
  What the code takes from outside \<^verbatim>\<open>src/\<close>:
  \<^item> \<open>NDEBUG\<close>: whether \<^verbatim>\<open>assert\<close> is compiled out;
  \<^item> \<open>move_row\<close>, \<open>move_col\<close>: \<^verbatim>\<open>DrawState::move_row(N, relative)\<close> and
    \<^verbatim>\<open>DrawState::move_col(N, relative, implicit)\<close>, methods of the draw state;
  \<^item> \<open>new_Cell\<close>: the constructor \<^verbatim>\<open>Cell(background_color)\<close>;
  \<^item> \<open>wcwidth\<close>: libc's column width of a wide character;
  \<^item> \<open>lrint_out_of_range\<close>: the value \<^verbatim>\<open>lrint\<close> returns for an argument outside the
    range of \<^verbatim>\<open>long\<close>, which C leaves unspecified;
  \<^item> \<open>uninit_flag\<close>: the value of the member \<^verbatim>\<open>flag\<close> of an \<^verbatim>\<open>OverlayCell\<close> fresh from its
    constructor, which does not initialise it;
  \<^item> \<open>fmt_no_contact\<close>, \<open>fmt_message\<close>, \<open>fmt_both\<close>: the wide string \<^verbatim>\<open>swprintf\<close> leaves
    in the 128-character buffer for each of the three banner formats, given the message
    and the milliseconds since the last word of the server.
\<close>

record env =
  NDEBUG :: bool
  move_row :: "DrawState \<Rightarrow> int \<Rightarrow> bool \<Rightarrow> DrawState"
  move_col :: "DrawState \<Rightarrow> int \<Rightarrow> bool \<Rightarrow> bool \<Rightarrow> DrawState"
  new_Cell :: "int \<Rightarrow> Cell"
  wcwidth :: "wchar \<Rightarrow> int"
  lrint_out_of_range :: "real \<Rightarrow> int"
  uninit_flag :: bool
  fmt_no_contact :: "u64 \<Rightarrow> wchar list"
  fmt_message :: "wchar list \<Rightarrow> wchar list"
  fmt_both :: "wchar list \<Rightarrow> u64 \<Rightarrow> wchar list"

text \<open>The conversion of a \<^verbatim>\<open>uint64_t\<close> to \<^verbatim>\<open>int\<close>: the low 32 bits, read as two's complement.\<close>

definition int_of_u64 :: "u64 \<Rightarrow> int" where
  "int_of_u64 w = sint (ucast w :: 32 word)"

definition INT_MAX :: int where
  "INT_MAX = 2147483647"

subsection \<open>Double precision arithmetic\<close>

text \<open>
  IEEE 754 binary64, round to nearest, ties to even, on the reals. \<open>pow2 k\<close> is \<open>2^k\<close> for
  an integer \<open>k\<close>; \<open>binade x\<close> is the exponent \<open>e\<close> with \<open>2^e \<le> x < 2^(e+1)\<close> of a
  positive \<open>x\<close>; a binary64 number with exponent \<open>e\<close> is a multiple of \<open>2^(e - 52)\<close>, and
  below the smallest normal exponent \<open>- 1022\<close> the spacing stays that of the subnormals.
  \<open>round_even\<close> rounds to the nearest integer, a tie to the even one. The operations of
  the code on doubles are \<open>dadd\<close>, \<open>dsub\<close>, \<open>dmul\<close> and \<open>ddiv\<close>, each rounding its exact
  result; \<^verbatim>\<open>fabs\<close>, \<^verbatim>\<open>ceil\<close> and the comparisons are exact. \<open>double_of_u64\<close> is the
  conversion of a \<^verbatim>\<open>uint64_t\<close>, which rounds above \<open>2^53\<close>.
\<close>

definition pow2 :: "int \<Rightarrow> real" where
  "pow2 k = (if 0 \<le> k then 2 ^ nat k else 1 / 2 ^ nat (- k))"

definition binade :: "real \<Rightarrow> int" where
  "binade x = (if 1 \<le> x then bitlen \<lfloor>x\<rfloor> - 1 else - bitlen (\<lceil>1 / x\<rceil> - 1))"

definition round_even :: "real \<Rightarrow> int" where
  "round_even q =
     (let f = \<lfloor>q\<rfloor> in
      if q - of_int f < 1 / 2 then f
      else if q - of_int f > 1 / 2 then f + 1
      else if even f then f else f + 1)"

definition binary64 :: "real \<Rightarrow> real" where
  "binary64 x =
     (if x = 0 then 0
      else
        (let ulp = pow2 (max (binade \<bar>x\<bar>) (- 1022) - 52)
         in sgn x * (of_int (round_even (\<bar>x\<bar> / ulp)) * ulp)))"

definition dadd :: "real \<Rightarrow> real \<Rightarrow> real" where
  "dadd x y = binary64 (x + y)"

definition dsub :: "real \<Rightarrow> real \<Rightarrow> real" where
  "dsub x y = binary64 (x - y)"

definition dmul :: "real \<Rightarrow> real \<Rightarrow> real" where
  "dmul x y = binary64 (x * y)"

definition ddiv :: "real \<Rightarrow> real \<Rightarrow> real" where
  "ddiv x y = binary64 (x / y)"

definition double_of_u64 :: "u64 \<Rightarrow> real" where
  "double_of_u64 w = binary64 (real (unat w))"

subsection \<open>Overlay elements\<close>

text \<open>
  The class hierarchy: \<^verbatim>\<open>OverlayElement\<close> is the base; \<^verbatim>\<open>OverlayCell\<close> and \<^verbatim>\<open>CursorMove\<close>
  extend it; \<^verbatim>\<open>ConditionalOverlayCell\<close> extends \<^verbatim>\<open>OverlayCell\<close> and \<^verbatim>\<open>ConditionalCursorMove\<close>
  extends \<^verbatim>\<open>CursorMove\<close> (with no field of its own).
\<close>

record OverlayElement =
  expiration_time :: u64
  prediction_time :: u64

record OverlayCell = OverlayElement +
  row :: int
  col :: int
  replacement :: Cell
  flag :: bool

record ConditionalOverlayCell = OverlayCell +
  original_contents :: Cell

record CursorMove = OverlayElement +
  new_row :: int
  new_col :: int

type_synonym ConditionalCursorMove = CursorMove

text \<open>An element of an engine's list: a pointer to an object of one of the four classes.\<close>

datatype element =
  OC OverlayCell
  | CM CursorMove
  | COC ConditionalOverlayCell
  | CCM ConditionalCursorMove

fun elem_expiration_time :: "element \<Rightarrow> u64" where
  "elem_expiration_time (OC x) = expiration_time x"
| "elem_expiration_time (CM x) = expiration_time x"
| "elem_expiration_time (COC x) = expiration_time x"
| "elem_expiration_time (CCM x) = expiration_time x"

fun elem_prediction_time :: "element \<Rightarrow> u64" where
  "elem_prediction_time (OC x) = prediction_time x"
| "elem_prediction_time (CM x) = prediction_time x"
| "elem_prediction_time (COC x) = prediction_time x"
| "elem_prediction_time (CCM x) = prediction_time x"

definition OverlayElement_get_validity :: "u64 \<Rightarrow> 'a OverlayElement_scheme \<Rightarrow> Validity" where
  "OverlayElement_get_validity now x =
     (if now < expiration_time x then Pending else IncorrectOrExpired)"

definition OverlayCell_apply :: "Framebuffer \<Rightarrow> 'a OverlayCell_scheme \<Rightarrow> Framebuffer" where
  "OverlayCell_apply fb x =
     (if row x \<ge> get_height (ds fb) \<or> col x \<ge> get_width (ds fb) then fb
      else if get_cell fb (row x) (col x) \<noteq> replacement x then
        (let fb1 = set_cell fb (row x) (col x) (replacement x) in
         if flag x then
           (let c = get_cell fb1 (row x) (col x) in
            set_cell fb1 (row x) (col x) (c\<lparr>renditions := (renditions c)\<lparr>underlined := True\<rparr>\<rparr>))
         else fb1)
      else fb)"

definition ConditionalOverlayCell_get_validity ::
  "u64 \<Rightarrow> Framebuffer \<Rightarrow> ConditionalOverlayCell \<Rightarrow> Validity" where
  "ConditionalOverlayCell_get_validity now fb x =
     (if row x \<ge> get_height (ds fb) \<or> col x \<ge> get_width (ds fb) then IncorrectOrExpired
      else
        (let current = get_cell fb (row x) (col x) in
         if now < expiration_time x \<and> current = original_contents x then Pending
         else if current = replacement x then Correct
         else IncorrectOrExpired))"

definition CursorMove_apply :: "env \<Rightarrow> Framebuffer \<Rightarrow> 'a CursorMove_scheme \<Rightarrow> error + Framebuffer" where
  "CursorMove_apply E fb x =
     (if \<not> NDEBUG E \<and> \<not> new_row x < get_height (ds fb) then Inl AssertionFailed
      else if \<not> NDEBUG E \<and> \<not> new_col x < get_width (ds fb) then Inl AssertionFailed
      else if \<not> NDEBUG E \<and> origin_mode (ds fb) then Inl AssertionFailed
      else
        (let ds1 = move_row E (ds fb) (new_row x) False;
             ds2 = move_col E ds1 (new_col x) False False
         in Inr (fb\<lparr>ds := ds2\<rparr>)))"

definition ConditionalCursorMove_get_validity ::
  "u64 \<Rightarrow> Framebuffer \<Rightarrow> ConditionalCursorMove \<Rightarrow> Validity" where
  "ConditionalCursorMove_get_validity now fb x =
     (if new_row x \<ge> get_height (ds fb) \<or> new_col x \<ge> get_width (ds fb) then IncorrectOrExpired
      else if now < expiration_time x then Pending
      else if get_cursor_col (ds fb) = new_col x \<and> get_cursor_row (ds fb) = new_row x then Correct
      else IncorrectOrExpired)"

text \<open>
  Virtual dispatch. \<^verbatim>\<open>get_validity\<close> is overridden by the two conditional classes only;
  \<^verbatim>\<open>apply\<close> is defined by \<^verbatim>\<open>OverlayCell\<close> and \<^verbatim>\<open>CursorMove\<close> and inherited.
\<close>

fun get_validity :: "u64 \<Rightarrow> Framebuffer \<Rightarrow> element \<Rightarrow> Validity" where
  "get_validity now fb (OC x) = OverlayElement_get_validity now x"
| "get_validity now fb (CM x) = OverlayElement_get_validity now x"
| "get_validity now fb (COC x) = ConditionalOverlayCell_get_validity now fb x"
| "get_validity now fb (CCM x) = ConditionalCursorMove_get_validity now fb x"

fun element_apply :: "env \<Rightarrow> Framebuffer \<Rightarrow> element \<Rightarrow> error + Framebuffer" where
  "element_apply E fb (OC x) = Inr (OverlayCell_apply fb x)"
| "element_apply E fb (CM x) = CursorMove_apply E fb x"
| "element_apply E fb (COC x) = Inr (OverlayCell_apply fb x)"
| "element_apply E fb (CCM x) = CursorMove_apply E fb x"

subsection \<open>Constructors\<close>

text \<open>
  The constructor of the base class is declared in the header; the time it stamps on
  \<^verbatim>\<open>prediction_time\<close> is the parameter \<open>ptime\<close> of every constructor here. The constructor
  of \<^verbatim>\<open>ConditionalOverlayCell\<close> is declared there too: it passes its first four arguments
  to \<^verbatim>\<open>OverlayCell\<close> and stores the fifth in \<^verbatim>\<open>original_contents\<close>.
\<close>

definition new_OverlayCell :: "env \<Rightarrow> u64 \<Rightarrow> u64 \<Rightarrow> int \<Rightarrow> int \<Rightarrow> int \<Rightarrow> OverlayCell" where
  "new_OverlayCell E ptime expiration s_row s_col bg =
     \<lparr>expiration_time = expiration, prediction_time = ptime,
      row = s_row, col = s_col, replacement = new_Cell E bg, flag = uninit_flag E\<rparr>"

definition new_CursorMove :: "u64 \<Rightarrow> u64 \<Rightarrow> int \<Rightarrow> int \<Rightarrow> CursorMove" where
  "new_CursorMove ptime expiration s_new_row s_new_col =
     \<lparr>expiration_time = expiration, prediction_time = ptime,
      new_row = s_new_row, new_col = s_new_col\<rparr>"

definition new_ConditionalOverlayCell ::
  "env \<Rightarrow> u64 \<Rightarrow> u64 \<Rightarrow> int \<Rightarrow> int \<Rightarrow> int \<Rightarrow> Cell \<Rightarrow> ConditionalOverlayCell" where
  "new_ConditionalOverlayCell E ptime expiration s_row s_col bg orig =
     \<lparr>expiration_time = expiration, prediction_time = ptime,
      row = s_row, col = s_col, replacement = new_Cell E bg, flag = uninit_flag E,
      original_contents = orig\<rparr>"

subsection \<open>OverlayEngine and PredictionEngine\<close>

record OverlayEngine =
  elements :: "element list"

record PredictionEngine = OverlayEngine +
  score :: int
  SRTT :: real
  RTTVAR :: real
  RTT_hit :: bool
  flagging :: bool

definition clear :: "'a OverlayEngine_scheme \<Rightarrow> 'a OverlayEngine_scheme" where
  "clear s = s\<lparr>elements := []\<rparr>"

fun OverlayEngine_apply :: "env \<Rightarrow> element list \<Rightarrow> Framebuffer \<Rightarrow> error + Framebuffer" where
  "OverlayEngine_apply E [] fb = Inr fb"
| "OverlayEngine_apply E (x # xs) fb =
     (case element_apply E fb x of
        Inl e \<Rightarrow> Inl e
      | Inr fb1 \<Rightarrow> OverlayEngine_apply E xs fb1)"

text \<open>
  \<^verbatim>\<open>cull\<close>: the loop walks the list and erases in place. The model walks the elements
  still to visit; the engine's list holds the elements kept so far. The block of the
  loop that updates the echo timeout state is \<open>update_echo_timeout\<close>; its argument is
  the \<^verbatim>\<open>double R\<close>, the \<^verbatim>\<open>uint64_t\<close> difference \<^verbatim>\<open>now - prediction_time\<close> converted.

  The loop asks every element for its validity twice, for the estimator and for the
  removal, and each \<^verbatim>\<open>get_validity\<close> reads the clock itself: \<open>ticks k\<close> is the pair of the
  clock readings in the two calls on the \<open>k\<close>-th element visited, while \<open>now\<close> is the
  reading taken once before the loop, from which \<open>R\<close> is computed.
\<close>

definition update_echo_timeout :: "real \<Rightarrow> PredictionEngine \<Rightarrow> PredictionEngine" where
  "update_echo_timeout R s =
     (if \<not> RTT_hit s then s\<lparr>SRTT := R, RTTVAR := ddiv R 2, RTT_hit := True\<rparr>
      else
        (let alpha = ddiv 1 8; beta = ddiv 1 4;
             s1 = s\<lparr>RTTVAR := dadd (dmul (dsub 1 beta) (RTTVAR s))
                                  (dmul beta \<bar>dsub (SRTT s) R\<bar>)\<rparr>
         in s1\<lparr>SRTT := dadd (dmul (dsub 1 alpha) (SRTT s1)) (dmul alpha R)\<rparr>))"

fun cull_loop ::
  "u64 \<Rightarrow> (nat \<Rightarrow> u64 \<times> u64) \<Rightarrow> Framebuffer \<Rightarrow> nat \<Rightarrow> element list
     \<Rightarrow> PredictionEngine \<Rightarrow> PredictionEngine" where
  "cull_loop now ticks fb k [] s = s"
| "cull_loop now ticks fb k (i # rest) s =
     (let s1 =
        (if get_validity (fst (ticks k)) fb i = Correct then
           update_echo_timeout (double_of_u64 (now - elem_prediction_time i)) s
         else s);
          s2 =
        (if get_validity (snd (ticks k)) fb i \<noteq> Pending then s1
         else s1\<lparr>elements := elements s1 @ [i]\<rparr>)
      in cull_loop now ticks fb (Suc k) rest s2)"

definition cull ::
  "u64 \<Rightarrow> (nat \<Rightarrow> u64 \<times> u64) \<Rightarrow> Framebuffer \<Rightarrow> PredictionEngine \<Rightarrow> PredictionEngine" where
  "cull now ticks fb s =
     (let s1 = cull_loop now ticks fb 0 (elements s) (s\<lparr>elements := []\<rparr>);
          s2 = (if SRTT s1 > 150 then s1\<lparr>flagging := True\<rparr> else s1);
          s3 = (if SRTT s2 < 100 then s2\<lparr>flagging := False\<rparr> else s2)
      in s3)"

fun calculate_score_loop ::
  "u64 \<Rightarrow> Framebuffer \<Rightarrow> element list \<Rightarrow> PredictionEngine \<Rightarrow> PredictionEngine" where
  "calculate_score_loop now fb [] s = s"
| "calculate_score_loop now fb (i # rest) s =
     (case get_validity now fb i of
        Pending \<Rightarrow> calculate_score_loop now fb rest s
      | Correct \<Rightarrow> calculate_score_loop now fb rest (s\<lparr>score := score s + 1\<rparr>)
      | IncorrectOrExpired \<Rightarrow> clear (s\<lparr>score := 0\<rparr>))"

definition calculate_score :: "u64 \<Rightarrow> Framebuffer \<Rightarrow> PredictionEngine \<Rightarrow> PredictionEngine" where
  "calculate_score now fb s = calculate_score_loop now fb (elements s) s"

text \<open>
  \<^verbatim>\<open>prediction_len\<close>: the two products and the sum in double precision, \<^verbatim>\<open>ceil\<close> of the
  double, \<^verbatim>\<open>lrint\<close> to a \<^verbatim>\<open>long\<close> (unspecified outside its range), the conversion to
  \<^verbatim>\<open>uint64_t\<close> (which wraps a negative value), the clamp, and the conversion of the result
  to \<^verbatim>\<open>int\<close>.
\<close>

definition lrint_ceil :: "env \<Rightarrow> real \<Rightarrow> int" where
  "lrint_ceil E x =
     (if - (2 ^ 63) \<le> \<lceil>x\<rceil> \<and> \<lceil>x\<rceil> < 2 ^ 63 then \<lceil>x\<rceil> else lrint_out_of_range E x)"

definition prediction_len :: "env \<Rightarrow> PredictionEngine \<Rightarrow> int" where
  "prediction_len E s =
     (let RTO = (word_of_int (lrint_ceil E (dadd (dmul 1.25 (SRTT s)) (dmul 8 (RTTVAR s)))) :: u64);
          RTO1 = (if RTO < 20 then 20 else if RTO > 2000 then 2000 else RTO)
      in int_of_u64 RTO1)"

text \<open>
  \<^verbatim>\<open>new_user_byte\<close>. The byte is a \<^verbatim>\<open>char\<close>, compared and stored through its value as an
  \<^verbatim>\<open>int\<close>, here that of a signed \<^verbatim>\<open>char\<close>; the test selects the bytes 0x20 to 0x7E, on
  which the signed and the unsigned value agree (\<open>printable_char\<close> below). The
  \<^verbatim>\<open>static_cast\<close> of the front element is guarded by an assertion on its dynamic type;
  with the assertion compiled out a front element of another class is undefined
  behaviour, the error \<open>BadCast\<close>.
\<close>

definition new_user_byte ::
  "env \<Rightarrow> u64 \<Rightarrow> u64 \<Rightarrow> 8 word \<Rightarrow> Framebuffer \<Rightarrow> PredictionEngine \<Rightarrow> error + PredictionEngine" where
  "new_user_byte E ptime now the_byte fb s =
     (let s1 =
        (if elements s = [] then
           s\<lparr>elements :=
               CCM (new_CursorMove ptime (now + word_of_int (prediction_len E s))
                      (get_cursor_row (ds fb)) (get_cursor_col (ds fb))) # elements s\<rparr>
         else s)
      in
      case elements s1 of
        CCM ccm # rest \<Rightarrow>
          if new_row ccm \<ge> get_height (ds fb) \<or> new_col ccm \<ge> get_width (ds fb) then Inr s1
          else if sint the_byte \<ge> 0x20 \<and> sint the_byte \<le> 0x7E
                  \<and> new_col ccm < get_width (ds fb) - 2 then
            (let existing_cell = get_cell fb (new_row ccm) (new_col ccm);
                 coc = new_ConditionalOverlayCell E ptime (now + word_of_int (prediction_len E s1))
                         (new_row ccm) (new_col ccm)
                         (background_color (renditions existing_cell)) existing_cell;
                 coc1 = coc\<lparr>replacement := existing_cell\<rparr>;
                 coc2 = coc1\<lparr>replacement := (replacement coc1)\<lparr>contents := []\<rparr>\<rparr>;
                 coc3 = coc2\<lparr>replacement :=
                          (replacement coc2)\<lparr>contents := contents (replacement coc2) @ [sint the_byte]\<rparr>\<rparr>;
                 coc4 = coc3\<lparr>flag := flagging s1\<rparr>;
                 ccm1 = ccm\<lparr>new_col := new_col ccm + 1\<rparr>;
                 ccm2 = ccm1\<lparr>expiration_time := now + word_of_int (prediction_len E s1)\<rparr>
             in Inr (s1\<lparr>elements := (CCM ccm2 # rest) @ [COC coc4]\<rparr>))
          else Inr ((clear s1)\<lparr>score := 0\<rparr>)
      | _ \<Rightarrow> Inl (if NDEBUG E then BadCast else AssertionFailed))"

subsection \<open>NotificationEngine\<close>

record NotificationEngine = OverlayEngine +
  needs_render :: bool
  last_word :: u64
  last_render :: u64
  message :: "wchar list"
  message_expiration :: u64

definition server_ping :: "u64 \<Rightarrow> NotificationEngine \<Rightarrow> NotificationEngine" where
  "server_ping s_last_word n =
     (let n1 = (if s_last_word - last_word n > 4000 then n\<lparr>needs_render := True\<rparr> else n)
      in n1\<lparr>last_word := s_last_word\<rparr>)"

definition set_notification_string ::
  "u64 \<Rightarrow> wchar list \<Rightarrow> NotificationEngine \<Rightarrow> NotificationEngine" where
  "set_notification_string now s_message n =
     n\<lparr>message := s_message, message_expiration := now + 1100, needs_render := True\<rparr>"

text \<open>The state of the layout loop of \<^verbatim>\<open>render_notification\<close>.\<close>

record layout =
  overlay_col :: int
  dirty :: bool
  current :: OverlayCell
  drawn :: "element list"

definition push_contents :: "wchar \<Rightarrow> OverlayCell \<Rightarrow> OverlayCell" where
  "push_contents ch x =
     x\<lparr>replacement := (replacement x)\<lparr>contents := contents (replacement x) @ [ch]\<rparr>\<rparr>"

definition set_width :: "int \<Rightarrow> OverlayCell \<Rightarrow> OverlayCell" where
  "set_width w x = x\<lparr>replacement := (replacement x)\<lparr>width := w\<rparr>\<rparr>"

fun layout_loop :: "env \<Rightarrow> OverlayCell \<Rightarrow> wchar list \<Rightarrow> layout \<Rightarrow> error + layout" where
  "layout_loop E template_cell [] l = Inr l"
| "layout_loop E template_cell (ch # rest) l =
     (let chwidth = (if ch = 0 then - 1 else wcwidth E ch) in
      if chwidth = 1 \<or> chwidth = 2 then
        (let l1 = (if dirty l then l\<lparr>drawn := drawn l @ [OC (current l)], dirty := False\<rparr> else l);
             l2 = l1\<lparr>current := template_cell\<rparr>;
             l3 = l2\<lparr>current := (current l2)\<lparr>col := overlay_col l2\<rparr>\<rparr>;
             l4 = l3\<lparr>current := push_contents ch (current l3)\<rparr>;
             l5 = l4\<lparr>current := set_width chwidth (current l4)\<rparr>;
             l6 = l5\<lparr>overlay_col := overlay_col l5 + chwidth\<rparr>
         in layout_loop E template_cell rest (l6\<lparr>dirty := True\<rparr>))
      else if chwidth = 0 then
        (let l1 =
           (if contents (replacement (current l)) = [] then
              (let a = l\<lparr>current := template_cell\<rparr>;
                   b = a\<lparr>current := (current a)\<lparr>col := overlay_col a\<rparr>\<rparr>;
                   c = b\<lparr>current := push_contents 0xA0 (current b)\<rparr>;
                   d = c\<lparr>current := set_width 1 (current c)\<rparr>;
                   e = d\<lparr>overlay_col := overlay_col d + 1\<rparr>
               in e\<lparr>dirty := True\<rparr>)
            else l)
         in layout_loop E template_cell rest (l1\<lparr>current := push_contents ch (current l1)\<rparr>))
      else if chwidth = - 1 then layout_loop E template_cell rest l
      else if NDEBUG E then layout_loop E template_cell rest l
      else Inl AssertionFailed)"

text \<open>
  \<^verbatim>\<open>render_notification\<close> is its early return (line 168) and, past it, the rest of the
  function, \<open>rebuild_banner\<close> (lines 172 to 256): the two fields, \<^verbatim>\<open>clear()\<close>, the expiry of
  the message, the choice of the string, the template cell and the layout loop, whose
  cells are pushed onto the list just cleared.
\<close>

definition rebuild_banner ::
  "env \<Rightarrow> u64 \<Rightarrow> u64 \<Rightarrow> NotificationEngine \<Rightarrow> error + NotificationEngine" where
  "rebuild_banner E ptime now n =
        (let n1 = n\<lparr>needs_render := False\<rparr>;
             n2 = n1\<lparr>last_render := now\<rparr>;
             n3 = clear n2;
             n4 = (if now \<ge> message_expiration n3 then n3\<lparr>message := []\<rparr> else n3);
             time_expired = (now - last_word n4 > 5000)
         in
         if message n4 = [] \<and> \<not> time_expired then Inr n4
         else
           (let string_to_draw =
                  (if message n4 = [] \<and> time_expired then fmt_no_contact E (now - last_word n4)
                   else if message n4 \<noteq> [] \<and> \<not> time_expired then fmt_message E (message n4)
                   else fmt_both E (message n4) (now - last_word n4));
                t0 = new_OverlayCell E ptime (now + 1100) 0 (- 1) 0;
                t1 = t0\<lparr>replacement := (replacement t0)\<lparr>renditions :=
                          (renditions (replacement t0))\<lparr>bold := True\<rparr>\<rparr>\<rparr>;
                t2 = t1\<lparr>replacement := (replacement t1)\<lparr>renditions :=
                          (renditions (replacement t1))\<lparr>foreground_color := 37\<rparr>\<rparr>\<rparr>;
                template_cell = t2\<lparr>replacement := (replacement t2)\<lparr>renditions :=
                          (renditions (replacement t2))\<lparr>background_color := 44\<rparr>\<rparr>\<rparr>
            in
            case layout_loop E template_cell string_to_draw
                   \<lparr>overlay_col = 0, dirty = False, current = template_cell, drawn = elements n4\<rparr> of
              Inl e \<Rightarrow> Inl e
            | Inr l \<Rightarrow>
                Inr (n4\<lparr>elements := (if dirty l then drawn l @ [OC (current l)] else drawn l)\<rparr>)))"

definition render_notification ::
  "env \<Rightarrow> u64 \<Rightarrow> u64 \<Rightarrow> NotificationEngine \<Rightarrow> error + NotificationEngine" where
  "render_notification E ptime now n =
     (if now - last_render n < 250 \<and> \<not> needs_render n then Inr n
      else rebuild_banner E ptime now n)"

text \<open>\<^verbatim>\<open>NotificationEngine::apply\<close>: the bar across row 0, the cursor hidden, then the cells.\<close>

fun draw_bar :: "Cell \<Rightarrow> nat list \<Rightarrow> Framebuffer \<Rightarrow> Framebuffer" where
  "draw_bar bar [] fb = fb"
| "draw_bar bar (i # rest) fb = draw_bar bar rest (set_cell fb 0 (int i) bar)"

definition NotificationEngine_apply ::
  "env \<Rightarrow> Framebuffer \<Rightarrow> NotificationEngine \<Rightarrow> error + Framebuffer" where
  "NotificationEngine_apply E fb n =
     (if elements n = [] then Inr fb
      else if \<not> NDEBUG E \<and> \<not> get_width (ds fb) > 0 then Inl AssertionFailed
      else if \<not> NDEBUG E \<and> \<not> get_height (ds fb) > 0 then Inl AssertionFailed
      else
        (let b0 = new_Cell E 0;
             b1 = b0\<lparr>renditions := (renditions b0)\<lparr>foreground_color := 37\<rparr>\<rparr>;
             b2 = b1\<lparr>renditions := (renditions b1)\<lparr>background_color := 44\<rparr>\<rparr>;
             notification_bar = b2\<lparr>contents := contents b2 @ [0x20]\<rparr>;
             fb1 = draw_bar notification_bar [0 ..< nat (get_width (ds fb))] fb;
             fb2 = (if get_cursor_row (ds fb1) = 0
                    then fb1\<lparr>ds := (ds fb1)\<lparr>cursor_visible := False\<rparr>\<rparr> else fb1)
         in OverlayEngine_apply E (elements n) fb2))"

subsection \<open>OverlayManager\<close>

record OverlayManager =
  notifications :: NotificationEngine
  predictions :: PredictionEngine

text \<open>
  \<^verbatim>\<open>OverlayManager::apply\<close>: \<open>scored\<close> is the clock while \<^verbatim>\<open>calculate_score\<close> runs, \<open>now\<close> and
  \<open>ticks\<close> are the readings of \<^verbatim>\<open>cull\<close>.
\<close>

definition OverlayManager_apply ::
  "env \<Rightarrow> u64 \<Rightarrow> u64 \<Rightarrow> (nat \<Rightarrow> u64 \<times> u64) \<Rightarrow> Framebuffer \<Rightarrow> OverlayManager
     \<Rightarrow> error + (OverlayManager \<times> Framebuffer)" where
  "OverlayManager_apply E scored now ticks fb om =
     (let p1 = calculate_score scored fb (predictions om);
          p2 = cull now ticks fb p1;
          om1 = om\<lparr>predictions := p2\<rparr>
      in
      case (if score p2 > 3 then OverlayEngine_apply E (elements p2) fb else Inr fb) of
        Inl e \<Rightarrow> Inl e
      | Inr fb1 \<Rightarrow>
          (case NotificationEngine_apply E fb1 (notifications om1) of
             Inl e \<Rightarrow> Inl e
           | Inr fb2 \<Rightarrow> Inr (om1, fb2)))"

fun next_expiry_loop :: "element list \<Rightarrow> u64 \<Rightarrow> u64" where
  "next_expiry_loop [] next_expiry = next_expiry"
| "next_expiry_loop (i # rest) next_expiry =
     next_expiry_loop rest
       (if elem_expiration_time i < next_expiry then elem_expiration_time i else next_expiry)"

definition wait_time :: "u64 \<Rightarrow> OverlayManager \<Rightarrow> int" where
  "wait_time now om =
     (let n0 = (- 1 :: u64);
          n1 = next_expiry_loop (elements (notifications om)) n0;
          next_expiry = next_expiry_loop (elements (predictions om)) n1;
          ret = int_of_u64 (next_expiry - now)
      in if ret < 0 then INT_MAX else ret)"

subsection \<open>The estimator in the words of the specification\<close>

text \<open>
  The smoothed round-trip time, its variance and the first-measurement flag as the
  specification states the recurrence: with no earlier measurement the sample \<open>R\<close> gives
  \<open>SRTT = R\<close> and \<open>RTTVAR = R / 2\<close>; afterwards \<open>RTTVAR = 3/4 RTTVAR + 1/4 |SRTT - R|\<close> and
  \<open>SRTT = 7/8 SRTT + 1/8 R\<close>, the variance from the old \<open>SRTT\<close>. \<open>jacobson\<close> is the
  recurrence in the arithmetic of the code, every operation rounded to double precision;
  \<open>jacobson_exact\<close> is the recurrence over the reals.
\<close>

definition jacobson :: "real \<times> real \<times> bool \<Rightarrow> real \<Rightarrow> real \<times> real \<times> bool" where
  "jacobson est R =
     (case est of (srtt, rttvar, hit) \<Rightarrow>
        if \<not> hit then (R, ddiv R 2, True)
        else (dadd (dmul (7 / 8) srtt) (dmul (1 / 8) R),
              dadd (dmul (3 / 4) rttvar) (dmul (1 / 4) \<bar>dsub srtt R\<bar>), True))"

definition jacobson_exact :: "real \<times> real \<times> bool \<Rightarrow> real \<Rightarrow> real \<times> real \<times> bool" where
  "jacobson_exact est R =
     (case est of (srtt, rttvar, hit) \<Rightarrow>
        if \<not> hit then (R, R / 2, True)
        else ((7 / 8) * srtt + (1 / 8) * R, (3 / 4) * rttvar + (1 / 4) * \<bar>srtt - R\<bar>, True))"

definition estimator :: "PredictionEngine \<Rightarrow> real \<times> real \<times> bool" where
  "estimator s = (SRTT s, RTTVAR s, RTT_hit s)"

text \<open>
  The samples one call of \<^verbatim>\<open>cull\<close> measures when the clock reads \<open>t\<close> at every
  \<^verbatim>\<open>get_validity\<close>: one per element that is \<open>Correct\<close>, in order.
\<close>

definition confirmed_samples :: "u64 \<Rightarrow> u64 \<Rightarrow> Framebuffer \<Rightarrow> element list \<Rightarrow> real list" where
  "confirmed_samples now t fb es =
     map (\<lambda>e. double_of_u64 (now - elem_prediction_time e))
       (filter (\<lambda>e. get_validity t fb e = Correct) es)"

text \<open>The engine after a history of samples, each fed through the block of \<^verbatim>\<open>cull\<close>.\<close>

definition fed :: "PredictionEngine \<Rightarrow> real list \<Rightarrow> PredictionEngine" where
  "fed s0 Rs = foldl (\<lambda>s R. update_echo_timeout R s) s0 Rs"

subsection \<open>The banner in the words of the specification\<close>

text \<open>
  A cell of the banner rendered at clock \<open>now\<close>: an overlay cell on row 0 that expires at
  \<open>now + 1100\<close>, bold, with foreground colour 37 and background colour 44.
\<close>

definition banner_cell :: "u64 \<Rightarrow> element \<Rightarrow> bool" where
  "banner_cell now e =
     (case e of
        OC c \<Rightarrow>
          expiration_time c = now + 1100 \<and> row c = 0
          \<and> bold (renditions (replacement c))
          \<and> foreground_color (renditions (replacement c)) = 37
          \<and> background_color (renditions (replacement c)) = 44
      | _ \<Rightarrow> False)"

subsection \<open>A keystroke in the words of the specification\<close>

text \<open>
  The engine after a keystroke \<open>b\<close>, given the cursor move \<open>ccm\<close> at the front of the list
  (the predicted cursor) and the elements \<open>rest\<close> behind it: nothing changes when the
  predicted cursor is off the screen; for a printable byte with the predicted cursor at
  least two columns from the right edge, a conditional cell is appended whose original
  contents is the cell under the predicted cursor and whose replacement is that cell
  with the contents \<open>[b]\<close>, flagged as the engine says, while the predicted cursor moves
  one column on and its expiration is refreshed; otherwise the list is cleared and the
  score is 0.
\<close>

definition predicted ::
  "env \<Rightarrow> u64 \<Rightarrow> u64 \<Rightarrow> 8 word \<Rightarrow> Framebuffer \<Rightarrow> PredictionEngine
     \<Rightarrow> ConditionalCursorMove \<Rightarrow> element list \<Rightarrow> PredictionEngine" where
  "predicted E ptime now b fb s ccm rest =
        (if new_row ccm \<ge> get_height (ds fb) \<or> new_col ccm \<ge> get_width (ds fb)
         then s\<lparr>elements := CCM ccm # rest\<rparr>
         else if 0x20 \<le> uint b \<and> uint b \<le> 0x7E \<and> new_col ccm + 2 < get_width (ds fb)
         then s\<lparr>elements :=
                  CCM (ccm\<lparr>new_col := new_col ccm + 1,
                            expiration_time := now + word_of_int (prediction_len E s)\<rparr>)
                  # rest
                  @ [COC \<lparr>expiration_time = now + word_of_int (prediction_len E s),
                           prediction_time = ptime,
                           row = new_row ccm, col = new_col ccm,
                           replacement = (get_cell fb (new_row ccm) (new_col ccm))\<lparr>contents := [uint b]\<rparr>,
                           flag = flagging s,
                           original_contents = get_cell fb (new_row ccm) (new_col ccm)\<rparr>]\<rparr>
         else s\<lparr>elements := [], score := 0\<rparr>)"

subsection \<open>Concrete inputs\<close>

text \<open>
  A blank cell, a cell holding one character, an 80 by 24 screen of blank cells with the
  cursor at a given place, and two environments: in \<open>plain_env\<close> an absolute cursor move
  stores the position it is given, in \<open>snap_env\<close> it stores the position snapped to the
  screen. Both take the flag that compiles assertions out.
\<close>

definition blank :: Cell where
  "blank = \<lparr>contents = [], width = 1,
            renditions = \<lparr>bold = False, underlined = False,
                          foreground_color = 0, background_color = 0\<rparr>\<rparr>"

definition letter :: "wchar \<Rightarrow> Cell" where
  "letter ch = blank\<lparr>contents := [ch]\<rparr>"

definition screen :: "int \<Rightarrow> int \<Rightarrow> Framebuffer" where
  "screen r c =
     \<lparr>ds = \<lparr>get_width = 80, get_height = 24, get_cursor_row = r, get_cursor_col = c,
             cursor_visible = True, origin_mode = False\<rparr>,
      cells = (\<lambda>i j. blank)\<rparr>"

definition plain_env :: "bool \<Rightarrow> env" where
  "plain_env nd =
     \<lparr>NDEBUG = nd,
      move_row = (\<lambda>d N relative.
         d\<lparr>get_cursor_row := (if relative then get_cursor_row d + N else N)\<rparr>),
      move_col = (\<lambda>d N relative implicit.
         d\<lparr>get_cursor_col := (if relative then get_cursor_col d + N else N)\<rparr>),
      new_Cell = (\<lambda>bg. blank\<lparr>renditions := (renditions blank)\<lparr>background_color := bg\<rparr>\<rparr>),
      wcwidth = (\<lambda>ch. if 32 \<le> ch \<and> ch < 127 then 1 else - 1),
      lrint_out_of_range = (\<lambda>x. - (2 ^ 63)),
      uninit_flag = False,
      fmt_no_contact = (\<lambda>ms. [91, 115, 116, 109, 93]),
      fmt_message = (\<lambda>m. [91, 115, 116, 109, 93, 32] @ m),
      fmt_both = (\<lambda>m ms. [91, 115, 116, 109, 93, 32] @ m)\<rparr>"

definition snap_env :: "bool \<Rightarrow> env" where
  "snap_env nd =
     (plain_env nd)\<lparr>
      move_row := (\<lambda>d N relative.
         d\<lparr>get_cursor_row :=
             max 0 (min (get_height d - 1) (if relative then get_cursor_row d + N else N))\<rparr>),
      move_col := (\<lambda>d N relative implicit.
         d\<lparr>get_cursor_col :=
             max 0 (min (get_width d - 1) (if relative then get_cursor_col d + N else N))\<rparr>)\<rparr>"

text \<open>The prediction of one typed character \<open>ch\<close> over the cell \<open>orig\<close>.\<close>

definition typed :: "u64 \<Rightarrow> u64 \<Rightarrow> int \<Rightarrow> int \<Rightarrow> wchar \<Rightarrow> Cell \<Rightarrow> ConditionalOverlayCell" where
  "typed ptime expiration r c ch orig =
     \<lparr>expiration_time = expiration, prediction_time = ptime, row = r, col = c,
      replacement = orig\<lparr>contents := [ch]\<rparr>, flag = False, original_contents = orig\<rparr>"

definition quiet :: "bool \<Rightarrow> u64 \<Rightarrow> u64 \<Rightarrow> NotificationEngine" where
  "quiet nr lw lr =
     \<lparr>elements = [], needs_render = nr, last_word = lw, last_render = lr,
      message = [], message_expiration = 0\<rparr>"

definition idle :: "element list \<Rightarrow> int \<Rightarrow> PredictionEngine" where
  "idle es sc =
     \<lparr>elements = es, score = sc, SRTT = 1000, RTTVAR = 500, RTT_hit = False, flagging = False\<rparr>"

text \<open>
  An engine whose estimator has seen sixteen round trips, of 100 and 101 ms in turn.
\<close>

definition seasoned :: "element list \<Rightarrow> PredictionEngine" where
  "seasoned es =
     fed (idle es 0)
       [100, 101, 100, 101, 100, 101, 100, 101, 100, 101, 100, 101, 100, 101, 100, 101]"

text \<open>
  A steady connection: nine round trips of 200 ms. A sample equal to \<open>SRTT\<close> leaves
  \<open>SRTT\<close> as it is and takes \<open>RTTVAR\<close> to \<open>decay RTTVAR\<close>, three quarters of it in double
  precision.
\<close>

definition steady :: "real list" where
  "steady = [200, 200, 200, 200, 200, 200, 200, 200, 200]"

definition decay :: "real \<Rightarrow> real" where
  "decay v = dadd (dmul (3 / 4) v) 0"

text \<open>A notification engine holding one banner cell at the top left corner.\<close>

definition notice :: NotificationEngine where
  "notice =
     (quiet False 0 100)\<lparr>elements :=
        [OC \<lparr>expiration_time = 1200, prediction_time = 100, row = 0, col = 0,
              replacement = (letter 33)\<lparr>renditions :=
                 \<lparr>bold = True, underlined = False, foreground_color = 37, background_color = 44\<rparr>\<rparr>,
              flag = False\<rparr>]\<rparr>"

text \<open>
  A run of the engine: \<open>typing\<close> is a keystroke at time \<open>t\<close> (the new elements stamped with
  \<open>t\<close>), \<open>redraw\<close> is \<^verbatim>\<open>OverlayManager::apply\<close> with no notification showing while the
  clock reads \<open>t\<close> throughout;
  both pass an earlier failure on. \<open>put_line\<close> writes a text on row 3 of a framebuffer.
  \<open>settled\<close> is an engine with nothing outstanding whose estimator has seen two round
  trips of 200 ms. In \<open>overtyping\<close> the user types \<open>abc\<close> within 2 ms over a row that
  already shows \<open>a\<close> under the cursor, the echo is on the screen at the redraw 200 ms
  later, then \<open>d\<close> is typed, echoed and redrawn 200 ms later, and a last redraw comes at
  time 1230.
\<close>

fun put_line :: "wchar list \<Rightarrow> int \<Rightarrow> Framebuffer \<Rightarrow> Framebuffer" where
  "put_line [] c fb = fb"
| "put_line (ch # rest) c fb = put_line rest (c + 1) (set_cell fb 3 c (letter ch))"

definition settled :: PredictionEngine where
  "settled = \<lparr>elements = [], score = 0, SRTT = 200, RTTVAR = 75, RTT_hit = True, flagging = True\<rparr>"

definition typing ::
  "u64 \<Rightarrow> 8 word \<Rightarrow> Framebuffer \<Rightarrow> error + PredictionEngine \<Rightarrow> error + PredictionEngine" where
  "typing t b fb r =
     (case r of Inl e \<Rightarrow> Inl e | Inr s \<Rightarrow> new_user_byte (plain_env False) t t b fb s)"

definition redraw ::
  "u64 \<Rightarrow> Framebuffer \<Rightarrow> error + PredictionEngine \<Rightarrow> error + PredictionEngine" where
  "redraw t fb r =
     (case r of
        Inl e \<Rightarrow> Inl e
      | Inr s \<Rightarrow>
          (case OverlayManager_apply (plain_env False) t t (\<lambda>k. (t, t)) fb
                  \<lparr>notifications = quiet False 0 0, predictions = s\<rparr> of
             Inl e \<Rightarrow> Inl e
           | Inr (om, fb1) \<Rightarrow> Inr (predictions om)))"

definition overtyping :: "error + PredictionEngine" where
  "overtyping =
     redraw 1230 (put_line [97, 98, 99, 100] 7 (screen 3 11))
       (redraw 830 (put_line [97, 98, 99, 100] 7 (screen 3 11))
          (typing 630 100 (put_line [97, 98, 99] 7 (screen 3 10))
             (redraw 621 (put_line [97, 98, 99] 7 (screen 3 10))
                (typing 422 99 (put_line [97] 7 (screen 3 7))
                   (typing 421 98 (put_line [97] 7 (screen 3 7))
                      (typing 420 97 (put_line [97] 7 (screen 3 7)) (Inr settled)))))))"

section \<open>Validity of the conditional elements\<close>

text \<open>
  Claim C2, as amended. For a conditional cursor move whose target passes the bounds
  check of the code (\<open>new_row < height\<close> and \<open>new_col < width\<close>), \<^verbatim>\<open>get_validity\<close> returns
  \<open>Pending\<close> whenever the clock is before \<open>expiration_time\<close>, whether or not the cursor
  is already at the target; once the clock has reached \<open>expiration_time\<close> it returns
  \<open>Correct\<close> when the cursor is at the target and \<open>IncorrectOrExpired\<close> otherwise.
\<close>

theorem ConditionalCursorMove_validity:
  assumes "new_row m < get_height (ds fb)" and "new_col m < get_width (ds fb)"
  shows "ConditionalCursorMove_get_validity now fb m =
     (if now < expiration_time m then Pending
      else if get_cursor_row (ds fb) = new_row m \<and> get_cursor_col (ds fb) = new_col m then Correct
      else IncorrectOrExpired)"
  using assms by (auto simp: ConditionalCursorMove_get_validity_def)

text \<open>
  The claim as stated fails: with the cursor already at the target (3, 7) and the clock
  at 5, before the expiration time 10, the move is \<open>Pending\<close>, not \<open>Correct\<close>.
\<close>

theorem ConditionalCursorMove_validity_counterexample:
  "new_row (new_CursorMove 0 10 3 7) < get_height (ds (screen 3 7))
   \<and> new_col (new_CursorMove 0 10 3 7) < get_width (ds (screen 3 7))
   \<and> get_cursor_row (ds (screen 3 7)) = new_row (new_CursorMove 0 10 3 7)
   \<and> get_cursor_col (ds (screen 3 7)) = new_col (new_CursorMove 0 10 3 7)
   \<and> (5 :: u64) < expiration_time (new_CursorMove 0 10 3 7)
   \<and> ConditionalCursorMove_get_validity 5 (screen 3 7) (new_CursorMove 0 10 3 7) = Pending
   \<and> ConditionalCursorMove_get_validity 5 (screen 3 7) (new_CursorMove 0 10 3 7) \<noteq> Correct"
  by (simp add: ConditionalCursorMove_get_validity_def screen_def new_CursorMove_def)

theorem ConditionalCursorMove_validity_witness:
  "ConditionalCursorMove_get_validity 12 (screen 3 7) (new_CursorMove 0 10 3 7) = Correct
   \<and> ConditionalCursorMove_get_validity 5 (screen 3 6) (new_CursorMove 0 10 3 7) = Pending
   \<and> ConditionalCursorMove_get_validity 12 (screen 3 6) (new_CursorMove 0 10 3 7)
       = IncorrectOrExpired"
  using ConditionalCursorMove_validity [of "new_CursorMove 0 10 3 7" "screen 3 7" 12]
    ConditionalCursorMove_validity [of "new_CursorMove 0 10 3 7" "screen 3 6" 5]
    ConditionalCursorMove_validity [of "new_CursorMove 0 10 3 7" "screen 3 6" 12]
  by (simp add: screen_def new_CursorMove_def)

text \<open>
  Claim C3, as amended. For a conditional overlay cell whose position passes the bounds
  check of the code, \<^verbatim>\<open>get_validity\<close> returns \<open>Pending\<close> when the clock is before
  \<open>expiration_time\<close> and the framebuffer cell equals \<open>original_contents\<close>, also when that
  cell equals \<open>replacement\<close> as well; otherwise \<open>Correct\<close> when the cell equals
  \<open>replacement\<close>; otherwise \<open>IncorrectOrExpired\<close>.
\<close>

theorem ConditionalOverlayCell_validity:
  assumes "row c < get_height (ds fb)" and "col c < get_width (ds fb)"
  shows "ConditionalOverlayCell_get_validity now fb c =
     (if now < expiration_time c \<and> get_cell fb (row c) (col c) = original_contents c then Pending
      else if get_cell fb (row c) (col c) = replacement c then Correct
      else IncorrectOrExpired)"
  using assms by (simp add: ConditionalOverlayCell_get_validity_def Let_def)

text \<open>
  The claim as stated fails where the prediction replaces a character by itself: the
  cell at (3, 7) holds \<open>a\<close>, the user types \<open>a\<close>, so the cell equals the replacement, and
  before the expiration time the element is \<open>Pending\<close>, not \<open>Correct\<close>.
\<close>

theorem ConditionalOverlayCell_validity_counterexample:
  "row (typed 0 10 3 7 97 (letter 97)) < get_height (ds (set_cell (screen 3 7) 3 7 (letter 97)))
   \<and> col (typed 0 10 3 7 97 (letter 97)) < get_width (ds (set_cell (screen 3 7) 3 7 (letter 97)))
   \<and> get_cell (set_cell (screen 3 7) 3 7 (letter 97)) 3 7
       = replacement (typed 0 10 3 7 97 (letter 97))
   \<and> ConditionalOverlayCell_get_validity 5 (set_cell (screen 3 7) 3 7 (letter 97))
        (typed 0 10 3 7 97 (letter 97)) = Pending"
  by (simp add: ConditionalOverlayCell_get_validity_def screen_def typed_def letter_def
      set_cell_def get_cell_def blank_def)

theorem ConditionalOverlayCell_validity_witness:
  "ConditionalOverlayCell_get_validity 5 (screen 3 7) (typed 0 10 3 7 97 blank) = Pending
   \<and> ConditionalOverlayCell_get_validity 12 (screen 3 7) (typed 0 10 3 7 97 blank)
       = IncorrectOrExpired
   \<and> ConditionalOverlayCell_get_validity 5 (set_cell (screen 3 7) 3 7 (letter 97))
        (typed 0 10 3 7 97 blank) = Correct
   \<and> ConditionalOverlayCell_get_validity 5 (set_cell (screen 3 7) 3 7 (letter 98))
        (typed 0 10 3 7 97 blank) = IncorrectOrExpired"
  using ConditionalOverlayCell_validity [of "typed 0 10 3 7 97 blank" "screen 3 7" 5]
    ConditionalOverlayCell_validity [of "typed 0 10 3 7 97 blank" "screen 3 7" 12]
    ConditionalOverlayCell_validity
      [of "typed 0 10 3 7 97 blank" "set_cell (screen 3 7) 3 7 (letter 97)" 5]
    ConditionalOverlayCell_validity
      [of "typed 0 10 3 7 97 blank" "set_cell (screen 3 7) 3 7 (letter 98)" 5]
  by (simp add: screen_def typed_def letter_def set_cell_def get_cell_def blank_def)

section \<open>Applying an element whose target is off the screen\<close>

text \<open>
  Claim C4, as amended. \<^verbatim>\<open>OverlayCell::apply\<close> with \<open>row \<ge> height\<close> or \<open>col \<ge> width\<close> leaves
  the framebuffer unchanged. \<^verbatim>\<open>CursorMove::apply\<close> has no bounds check of its own: for a
  target with \<open>new_row \<ge> height\<close> or \<open>new_col \<ge> width\<close> it fails its assertion where
  assertions are compiled in, and where they are compiled out it hands the target to
  \<^verbatim>\<open>move_row\<close> and \<^verbatim>\<open>move_col\<close> of the draw state as it is.
\<close>

theorem apply_out_of_bounds:
  "((row x \<ge> get_height (ds fb) \<or> col x \<ge> get_width (ds fb)) \<longrightarrow> OverlayCell_apply fb x = fb)
   \<and> ((new_row m \<ge> get_height (ds fb) \<or> new_col m \<ge> get_width (ds fb)) \<longrightarrow>
        CursorMove_apply E fb m =
          (if NDEBUG E
           then Inr (fb\<lparr>ds := move_col E (move_row E (ds fb) (new_row m) False)
                                 (new_col m) False False\<rparr>)
           else Inl AssertionFailed))"
  by (auto simp: OverlayCell_apply_def CursorMove_apply_def Let_def)

text \<open>
  The claim as stated fails for the cursor move: with assertions compiled out, the move
  to (30, 90) on the 80 by 24 screen with the cursor at (3, 7) moves the cursor, to
  (30, 90) when the draw state stores what it is given and to the corner (23, 79) when
  it snaps to the screen; with assertions compiled in the operation fails.
\<close>

theorem apply_out_of_bounds_counterexample:
  "new_row (new_CursorMove 0 10 30 90) \<ge> get_height (ds (screen 3 7))
   \<and> new_col (new_CursorMove 0 10 30 90) \<ge> get_width (ds (screen 3 7))
   \<and> CursorMove_apply (plain_env True) (screen 3 7) (new_CursorMove 0 10 30 90)
       = Inr (screen 30 90)
   \<and> CursorMove_apply (snap_env True) (screen 3 7) (new_CursorMove 0 10 30 90)
       = Inr (screen 23 79)
   \<and> screen 30 90 \<noteq> screen 3 7 \<and> screen 23 79 \<noteq> screen 3 7
   \<and> CursorMove_apply (plain_env False) (screen 3 7) (new_CursorMove 0 10 30 90)
       = Inl AssertionFailed"
  by (simp add: CursorMove_apply_def plain_env_def snap_env_def screen_def new_CursorMove_def)

theorem apply_out_of_bounds_witness:
  "OverlayCell_apply (screen 3 7) (typed 0 10 24 7 97 blank) = screen 3 7
   \<and> CursorMove_apply (plain_env True) (screen 3 7) (new_CursorMove 0 10 30 90)
       = Inr (screen 30 90)
   \<and> CursorMove_apply (plain_env False) (screen 3 7) (new_CursorMove 0 10 30 90)
       = Inl AssertionFailed"
  using apply_out_of_bounds [of "screen 3 7" "typed 0 10 24 7 97 blank"
      "new_CursorMove 0 10 30 90" "plain_env True"]
    apply_out_of_bounds [of "screen 3 7" "typed 0 10 24 7 97 blank"
      "new_CursorMove 0 10 30 90" "plain_env False"]
  by (simp add: plain_env_def screen_def new_CursorMove_def typed_def)

section \<open>The notification engine's ping\<close>

lemma layout_loop_banner:
  assumes "layout_loop E tc str l = Inr l'"
    and "banner_cell now (OC tc)" and "banner_cell now (OC (current l))"
    and "\<forall>e \<in> set (drawn l). banner_cell now e"
  shows "banner_cell now (OC (current l')) \<and> (\<forall>e \<in> set (drawn l'). banner_cell now e)"
  using assms
proof (induction str arbitrary: l)
  case Nil
  then show ?case by simp
next
  case (Cons ch rest)
  define chwidth where "chwidth = (if ch = 0 then - 1 else wcwidth E ch)"
  consider (cell) "chwidth = 1 \<or> chwidth = 2"
    | (combining) "\<not> (chwidth = 1 \<or> chwidth = 2)" "chwidth = 0"
    | (skip) "\<not> (chwidth = 1 \<or> chwidth = 2)" "chwidth \<noteq> 0"
    by blast
  then show ?case
  proof cases
    case cell
    define l6 where "l6 =
      (if dirty l then l\<lparr>drawn := drawn l @ [OC (current l)], dirty := False\<rparr> else l)
        \<lparr>current := set_width chwidth (push_contents ch (tc\<lparr>col := overlay_col l\<rparr>)),
         overlay_col := overlay_col l + chwidth, dirty := True\<rparr>"
    have "layout_loop E tc (ch # rest) l = layout_loop E tc rest l6"
      using cell by (simp add: chwidth_def [symmetric] l6_def Let_def)
    moreover have "banner_cell now (OC (current l6))"
      using Cons.prems(2) by (simp add: l6_def banner_cell_def set_width_def push_contents_def)
    moreover have "\<forall>e \<in> set (drawn l6). banner_cell now e"
      using Cons.prems(3,4) by (simp add: l6_def)
    ultimately show ?thesis
      using Cons.IH [of l6] Cons.prems(1,2) by simp
  next
    case combining
    define l1 where "l1 =
      (if contents (replacement (current l)) = [] then
         l\<lparr>current := set_width 1 (push_contents 0xA0 (tc\<lparr>col := overlay_col l\<rparr>)),
           overlay_col := overlay_col l + 1, dirty := True\<rparr>
       else l)"
    define l2 where "l2 = l1\<lparr>current := push_contents ch (current l1)\<rparr>"
    have "layout_loop E tc (ch # rest) l = layout_loop E tc rest l2"
      using combining by (simp add: chwidth_def [symmetric] l1_def l2_def Let_def)
    moreover have "banner_cell now (OC (current l2))"
      using Cons.prems(2,3)
      by (simp add: l1_def l2_def banner_cell_def set_width_def push_contents_def)
    moreover have "\<forall>e \<in> set (drawn l2). banner_cell now e"
      using Cons.prems(4) by (simp add: l1_def l2_def)
    ultimately show ?thesis
      using Cons.IH [of l] Cons.IH [of l2] Cons.prems(1,2) by simp
  next
    case skip
    have "layout_loop E tc (ch # rest) l = layout_loop E tc rest l
        \<or> layout_loop E tc (ch # rest) l = Inl AssertionFailed"
      using skip by (simp add: chwidth_def [symmetric] Let_def)
    then show ?thesis
      using Cons.IH [of l] Cons.prems by auto
  qed
qed

lemma rebuild_banner_cells:
  assumes "rebuild_banner E ptime now n = Inr n'"
  shows "last_render n' = now \<and> \<not> needs_render n'
         \<and> (\<forall>e \<in> set (elements n'). banner_cell now e)"
proof -
  define n4 where "n4 =
    (if now \<ge> message_expiration n
     then n\<lparr>needs_render := False, last_render := now, elements := [], message := []\<rparr>
     else n\<lparr>needs_render := False, last_render := now, elements := []\<rparr>)"
  define string_to_draw where "string_to_draw =
    (if message n4 = [] \<and> now - last_word n4 > 5000 then fmt_no_contact E (now - last_word n4)
     else if message n4 \<noteq> [] \<and> \<not> now - last_word n4 > 5000 then fmt_message E (message n4)
     else fmt_both E (message n4) (now - last_word n4))"
  define tc where "tc =
    (new_OverlayCell E ptime (now + 1100) 0 (- 1) 0)\<lparr>replacement :=
       (new_Cell E 0)\<lparr>renditions :=
          (renditions (new_Cell E 0))\<lparr>bold := True, foreground_color := 37,
                                        background_color := 44\<rparr>\<rparr>\<rparr>"
  define start where "start = \<lparr>overlay_col = 0, dirty = False, current = tc, drawn = []\<rparr>"
  have n4: "last_render n4 = now" "\<not> needs_render n4" "elements n4 = []"
    by (simp_all add: n4_def)
  have r: "rebuild_banner E ptime now n =
      (if message n4 = [] \<and> \<not> now - last_word n4 > 5000 then Inr n4
       else
         case layout_loop E tc string_to_draw start of
           Inl e \<Rightarrow> Inl e
         | Inr l \<Rightarrow>
             Inr (n4\<lparr>elements := (if dirty l then drawn l @ [OC (current l)] else drawn l)\<rparr>))"
    by (simp add: rebuild_banner_def Let_def clear_def n4_def string_to_draw_def tc_def
        start_def new_OverlayCell_def split: sum.splits)
  have t: "banner_cell now (OC tc)"
    by (simp add: banner_cell_def tc_def new_OverlayCell_def)
  show ?thesis
  proof (cases "message n4 = [] \<and> \<not> now - last_word n4 > 5000")
    case True
    then have "n' = n4" using assms r by simp
    then show ?thesis using n4 by simp
  next
    case False
    then obtain l where l: "layout_loop E tc string_to_draw start = Inr l"
      and n': "n' = n4\<lparr>elements := (if dirty l then drawn l @ [OC (current l)] else drawn l)\<rparr>"
      using assms r by (auto split: sum.splits)
    have "banner_cell now (OC (current l)) \<and> (\<forall>e \<in> set (drawn l). banner_cell now e)"
      using layout_loop_banner [OF l t] t by (simp add: start_def)
    then show ?thesis
      using n4 by (simp add: n')
  qed
qed

lemma rebuild_banner_from_scratch:
  "rebuild_banner E ptime now (n\<lparr>elements := es\<rparr>) = rebuild_banner E ptime now n"
  by (simp add: rebuild_banner_def clear_def)

text \<open>
  Claim C5, as amended. After \<^verbatim>\<open>server_ping(t)\<close> the field \<open>last_word\<close> equals \<open>t\<close>. When
  the jump \<open>t - last_word\<close> (in 64-bit unsigned arithmetic) is more than 4000 ms,
  \<open>needs_render\<close> is set, and then the next \<^verbatim>\<open>render_notification\<close>, at any clock reading,
  does not take the early return and rebuilds the banner: it runs the part of the
  function past the early return (\<open>rebuild_banner\<close>), whose outcome does not depend on
  the cells the engine held before; when it returns, \<open>last_render\<close> is the clock
  reading, \<open>needs_render\<close> is cleared and every cell the engine holds is a cell of the
  banner of this render. When the jump is at most 4000 ms, \<open>needs_render\<close> keeps its
  value.
\<close>

theorem server_ping_spec:
  "last_word (server_ping t n) = t
   \<and> (t - last_word n > 4000 \<longrightarrow>
        needs_render (server_ping t n)
        \<and> (\<forall>E ptime now.
              render_notification E ptime now (server_ping t n)
                = rebuild_banner E ptime now (server_ping t n)
              \<and> (\<forall>es. render_notification E ptime now ((server_ping t n)\<lparr>elements := es\<rparr>)
                         = render_notification E ptime now (server_ping t n))
              \<and> (\<forall>n'. render_notification E ptime now (server_ping t n) = Inr n' \<longrightarrow>
                         last_render n' = now \<and> \<not> needs_render n'
                         \<and> (\<forall>e \<in> set (elements n'). banner_cell now e))))
   \<and> (\<not> t - last_word n > 4000 \<longrightarrow> needs_render (server_ping t n) = needs_render n)"
proof -
  have a: "last_word (server_ping t n) = t"
    by (simp add: server_ping_def Let_def)
  have b: "needs_render (server_ping t n)" if "t - last_word n > 4000"
    using that by (simp add: server_ping_def Let_def)
  have c: "needs_render (server_ping t n) = needs_render n" if "\<not> t - last_word n > 4000"
    using that by (simp add: server_ping_def Let_def)
  have d: "render_notification E ptime now ((server_ping t n)\<lparr>elements := es\<rparr>)
      = rebuild_banner E ptime now (server_ping t n)"
    if "t - last_word n > 4000" for E ptime now es
    using b [OF that] by (simp add: render_notification_def rebuild_banner_from_scratch)
  have e: "render_notification E ptime now (server_ping t n)
      = rebuild_banner E ptime now (server_ping t n)"
    if "t - last_word n > 4000" for E ptime now
    using b [OF that] by (simp add: render_notification_def)
  show ?thesis
    using a b c d e rebuild_banner_cells by metis
qed

text \<open>
  The claim as stated fails at a jump of exactly 4000 ms: \<open>needs_render\<close> stays false,
  and a \<^verbatim>\<open>render_notification\<close> 200 ms after the previous render returns early and leaves
  the engine as it was.
\<close>

theorem server_ping_counterexample:
  "(4000 :: u64) - last_word (quiet False 0 3900) \<ge> 4000
   \<and> \<not> needs_render (server_ping 4000 (quiet False 0 3900))
   \<and> (4100 :: u64) - last_render (server_ping 4000 (quiet False 0 3900)) < 250
   \<and> render_notification (plain_env False) 0 4100 (server_ping 4000 (quiet False 0 3900))
       = Inr (server_ping 4000 (quiet False 0 3900))"
  by (simp add: server_ping_def quiet_def render_notification_def)

text \<open>
  At a jump of 4001 ms the render 200 ms after the previous one goes through; with the
  message \<open>hi\<close> pending it drops the cell the engine held and lays out the eight cells of
  the banner text \<open>[stm] hi\<close>, one per column.
\<close>

theorem server_ping_witness:
  "last_word (server_ping 4001 (quiet False 0 3900)) = 4001
   \<and> needs_render (server_ping 4001 (quiet False 0 3900))
   \<and> render_notification (plain_env False) 0 4100 (server_ping 4001 (quiet False 0 3900))
       = Inr (quiet False 4001 4100)
   \<and> (case render_notification (plain_env False) 0 4100
             (server_ping 4001
                (notice\<lparr>last_render := 3900, message := [104, 105],
                         message_expiration := 10000\<rparr>)) of
         Inl e \<Rightarrow> []
       | Inr n' \<Rightarrow>
           map (\<lambda>e. case e of
                  OC c \<Rightarrow> (expiration_time c, row c, col c, contents (replacement c))
                | _ \<Rightarrow> (0, 0, 0, [])) (elements n'))
       = [(5200, 0, 0, [91]), (5200, 0, 1, [115]), (5200, 0, 2, [116]), (5200, 0, 3, [109]),
          (5200, 0, 4, [93]), (5200, 0, 5, [32]), (5200, 0, 6, [104]), (5200, 0, 7, [105])]
   \<and> needs_render (server_ping 4000 (quiet False 0 3900)) = False"
  using server_ping_spec [of 4001 "quiet False 0 3900"]
    server_ping_spec [of 4000 "quiet False 0 3900"]
  by (simp add: server_ping_def quiet_def notice_def render_notification_def
      rebuild_banner_def clear_def plain_env_def new_OverlayCell_def push_contents_def
      set_width_def letter_def blank_def)

section \<open>The time to the next expiry\<close>

text \<open>
  What \<^verbatim>\<open>wait_time\<close> computes: the minimum of the expiration times and \<open>2^64 - 1\<close>, minus the
  clock, cut to its low 32 bits \<open>d\<close>; the result is \<open>d\<close> when \<open>d < 2^31\<close> and \<open>INT_MAX\<close>
  otherwise.
\<close>

lemma signed_low_bits:
  fixes d :: int
  assumes "0 \<le> d" and "d < 2 ^ 32"
  shows "signed_take_bit 31 d = (if d < 2 ^ 31 then d else d - 2 ^ 32)"
proof -
  have e: "signed_take_bit 31 d = (d + 2 ^ 31) mod 2 ^ 32 - 2 ^ 31"
    by (simp add: signed_take_bit_eq_take_bit_shift take_bit_eq_mod)
  show ?thesis
  proof (cases "d < 2 ^ 31")
    case True
    then have "(d + 2 ^ 31) mod 2 ^ 32 = d + 2 ^ 31"
      using assms by simp
    then show ?thesis using e True by simp
  next
    case False
    have h: "d + 2 ^ 31 = (d - 2 ^ 31) + 2 ^ 32"
      by simp
    have "(d + 2 ^ 31) mod 2 ^ 32 = ((d - 2 ^ 31) + 2 ^ 32) mod 2 ^ 32"
      by (simp only: h)
    also have "\<dots> = (d - 2 ^ 31) mod 2 ^ 32"
      by (rule mod_add_self2)
    also have "\<dots> = d - 2 ^ 31"
      using False assms by simp
    finally show ?thesis using e False by simp
  qed
qed

lemma int_of_u64_low_bits:
  "int_of_u64 w =
     (if uint w mod 2 ^ 32 < 2 ^ 31 then uint w mod 2 ^ 32 else uint w mod 2 ^ 32 - 2 ^ 32)"
proof -
  have m: "uint (ucast w :: 32 word) = uint w mod 2 ^ 32"
    by (simp add: unsigned_ucast_eq take_bit_eq_mod)
  have "sint (ucast w :: 32 word) = signed_take_bit 31 (uint w mod 2 ^ 32)"
    using m by (simp add: sint_uint)
  also have "\<dots> = (if uint w mod 2 ^ 32 < 2 ^ 31 then uint w mod 2 ^ 32
                    else uint w mod 2 ^ 32 - 2 ^ 32)"
    by (rule signed_low_bits) simp_all
  finally show ?thesis
    by (simp add: int_of_u64_def)
qed

lemma next_expiry_loop_fold:
  "next_expiry_loop es n = fold min (map elem_expiration_time es) n"
proof (induction es arbitrary: n)
  case Nil
  then show ?case by simp
next
  case (Cons i rest)
  have "(if elem_expiration_time i < n then elem_expiration_time i else n)
      = min (elem_expiration_time i) n"
    by (auto simp: min_def)
  then show ?case
    using Cons.IH [of "min (elem_expiration_time i) n"] by simp
qed

lemma wait_time_low_bits:
  "wait_time now om =
     (let next_expiry = fold min (map elem_expiration_time
                           (elements (notifications om) @ elements (predictions om))) (- 1);
          d = uint (next_expiry - now) mod 2 ^ 32
      in if d < 2 ^ 31 then d else INT_MAX)"
proof -
  define ne where "ne = fold min (map elem_expiration_time
                           (elements (notifications om) @ elements (predictions om))) (- 1)"
  have n: "next_expiry_loop (elements (predictions om))
             (next_expiry_loop (elements (notifications om)) (- 1)) = ne"
    by (simp add: ne_def next_expiry_loop_fold)
  have "0 \<le> uint (ne - now) mod 2 ^ 32"
    by simp
  then have "wait_time now om =
      (if uint (ne - now) mod 2 ^ 32 < 2 ^ 31 then uint (ne - now) mod 2 ^ 32 else INT_MAX)"
    unfolding wait_time_def Let_def int_of_u64_low_bits n
    by (auto simp: INT_MAX_def)
  then show ?thesis
    by (simp add: ne_def Let_def)
qed

text \<open>
  Claim C6 at a concrete input. Both element lists are empty and the clock reads
  1321000000000 ms. The sentinel \<open>2^64 - 1\<close> minus the clock, cut to the 32 bits of an
  \<^verbatim>\<open>int\<close>, is 1849927167: not negative, so \<^verbatim>\<open>wait_time\<close> returns it and not \<open>INT_MAX\<close>.
  At the clock reading \<open>2^32 - 1\<close> it returns 0.
\<close>

theorem wait_time_empty_lists:
  "elements (notifications \<lparr>notifications = quiet False 0 0, predictions = idle [] 0\<rparr>) = []
   \<and> elements (predictions \<lparr>notifications = quiet False 0 0, predictions = idle [] 0\<rparr>) = []
   \<and> wait_time 1321000000000 \<lparr>notifications = quiet False 0 0, predictions = idle [] 0\<rparr>
       = 1849927167
   \<and> wait_time 1321000000000 \<lparr>notifications = quiet False 0 0, predictions = idle [] 0\<rparr>
       \<noteq> INT_MAX
   \<and> wait_time 4294967295 \<lparr>notifications = quiet False 0 0, predictions = idle [] 0\<rparr> = 0"
  by (simp add: wait_time_def quiet_def idle_def int_of_u64_def INT_MAX_def)

section \<open>Scoring the predictions\<close>

lemma calculate_score_loop_spec:
  "calculate_score_loop now fb es s =
     (if \<exists>e \<in> set es. get_validity now fb e = IncorrectOrExpired
      then s\<lparr>score := 0, elements := []\<rparr>
      else s\<lparr>score := score s + int (length (filter (\<lambda>e. get_validity now fb e = Correct) es))\<rparr>)"
proof (induction es arbitrary: s)
  case Nil
  then show ?case by simp
next
  case (Cons i rest)
  show ?case
  proof (cases "get_validity now fb i")
    case Pending
    then show ?thesis using Cons.IH [of s] by simp
  next
    case Correct
    then show ?thesis using Cons.IH [of "s\<lparr>score := score s + 1\<rparr>"] by simp
  next
    case IncorrectOrExpired
    then show ?thesis by (simp add: clear_def)
  qed
qed

text \<open>
  Claim C9. \<^verbatim>\<open>calculate_score\<close> walks the elements in order. If some element is
  \<open>IncorrectOrExpired\<close> the walk ends there with the score 0 and no element left, whatever
  it counted before. Otherwise every element stays, and the score has grown by one for
  each \<open>Correct\<close> element, the \<open>Pending\<close> ones being skipped. Nothing else of the engine
  changes.
\<close>

theorem calculate_score_spec:
  "calculate_score now fb s =
     (if \<exists>e \<in> set (elements s). get_validity now fb e = IncorrectOrExpired
      then s\<lparr>score := 0, elements := []\<rparr>
      else s\<lparr>score := score s
             + int (length (filter (\<lambda>e. get_validity now fb e = Correct) (elements s)))\<rparr>)"
  unfolding calculate_score_def by (rule calculate_score_loop_spec)

text \<open>
  On a screen where the character typed at (3, 7) has been echoed and the one at (3, 8)
  has not: at clock 12 the cursor move and the second cell are pending, the first cell
  is correct and the score goes from 3 to 4; at clock 22 the cursor move has expired
  with the cursor elsewhere, and the engine is cleared.
\<close>

theorem calculate_score_spec_witness:
  "calculate_score 12 (set_cell (screen 3 7) 3 7 (letter 97))
     (idle [CCM (new_CursorMove 0 20 3 9), COC (typed 2 20 3 7 97 blank),
            COC (typed 4 20 3 8 98 blank)] 3)
     = idle [CCM (new_CursorMove 0 20 3 9), COC (typed 2 20 3 7 97 blank),
             COC (typed 4 20 3 8 98 blank)] 4
   \<and> calculate_score 22 (set_cell (screen 3 7) 3 7 (letter 97))
     (idle [CCM (new_CursorMove 0 20 3 9), COC (typed 2 20 3 7 97 blank),
            COC (typed 4 20 3 8 98 blank)] 3)
     = idle [] 0"
  using calculate_score_spec [of 12 "set_cell (screen 3 7) 3 7 (letter 97)"
      "idle [CCM (new_CursorMove 0 20 3 9), COC (typed 2 20 3 7 97 blank),
             COC (typed 4 20 3 8 98 blank)] 3"]
    calculate_score_spec [of 22 "set_cell (screen 3 7) 3 7 (letter 97)"
      "idle [CCM (new_CursorMove 0 20 3 9), COC (typed 2 20 3 7 97 blank),
             COC (typed 4 20 3 8 98 blank)] 3"]
  by (simp add: idle_def screen_def set_cell_def get_cell_def typed_def letter_def blank_def
      new_CursorMove_def ConditionalCursorMove_get_validity_def
      ConditionalOverlayCell_get_validity_def)

section \<open>Double precision\<close>

text \<open>
  The facts of the arithmetic used below: the rules with which the operations evaluate
  on numerals, the constants of the estimator, which are exact, and the sign of a
  rounded value.
\<close>

lemmas double_eval =
  dadd_def dsub_def dmul_def ddiv_def double_of_u64_def binary64_def binade_def pow2_def
  round_even_def compute_bitlen

text \<open>
  The rounding at a few known values: one tenth and one third, and the first two odd
  integers that are not doubles (ties, rounded to the even neighbour).
\<close>

lemma binary64_examples:
  "binary64 (1 / 10) = 3602879701896397 / 36028797018963968"
  "binary64 (1 / 3) = 6004799503160661 / 18014398509481984"
  "binary64 9007199254740993 = 9007199254740992"
  "binary64 9007199254740995 = 9007199254740996"
  "binary64 (- (1 / 10)) = - (3602879701896397 / 36028797018963968)"
  by (simp_all add: double_eval)

lemma double_consts:
  "ddiv 1 8 = 1 / 8" "ddiv 1 4 = 1 / 4" "dsub 1 (1 / 4) = 3 / 4" "dsub 1 (1 / 8) = 7 / 8"
  by (simp_all add: double_eval)

lemma pow2_pos: "0 < pow2 k"
  by (simp add: pow2_def)

lemma round_even_nonneg:
  assumes "0 \<le> q"
  shows "0 \<le> round_even q"
proof -
  have "0 \<le> \<lfloor>q\<rfloor>" using assms by simp
  then show ?thesis
    by (simp add: round_even_def Let_def)
qed

lemma binary64_nonneg:
  assumes "0 \<le> x"
  shows "0 \<le> binary64 x"
proof (cases "x = 0")
  case True
  then show ?thesis by (simp add: binary64_def)
next
  case False
  define ulp where "ulp = pow2 (max (binade \<bar>x\<bar>) (- 1022) - 52)"
  have u: "0 < ulp" unfolding ulp_def by (rule pow2_pos)
  have "0 \<le> \<bar>x\<bar> / ulp" using u by simp
  then have "0 \<le> round_even (\<bar>x\<bar> / ulp)" by (rule round_even_nonneg)
  then have "0 \<le> of_int (round_even (\<bar>x\<bar> / ulp)) * ulp"
    using u by simp
  moreover have "sgn x = 1" using assms False by simp
  ultimately show ?thesis
    using False by (simp add: binary64_def Let_def ulp_def [symmetric])
qed

section \<open>Culling and the round-trip estimator\<close>

lemma update_echo_timeout_estimator:
  "estimator (update_echo_timeout R s) = jacobson (estimator s) R"
  by (simp add: update_echo_timeout_def estimator_def jacobson_def Let_def double_consts)

lemma update_echo_timeout_frame:
  "elements (update_echo_timeout R s) = elements s"
  "score (update_echo_timeout R s) = score s"
  "flagging (update_echo_timeout R s) = flagging s"
  by (simp_all add: update_echo_timeout_def Let_def)

text \<open>
  The loop when the clock reads \<open>t1\<close> at every first and \<open>t2\<close> at every second
  \<^verbatim>\<open>get_validity\<close>: the estimator is fed for the elements \<open>Correct\<close> at \<open>t1\<close>, the elements
  \<open>Pending\<close> at \<open>t2\<close> are kept.
\<close>

lemma cull_loop_spec:
  "elements (cull_loop now (\<lambda>k. (t1, t2)) fb k es s)
     = elements s @ filter (\<lambda>e. get_validity t2 fb e = Pending) es
   \<and> estimator (cull_loop now (\<lambda>k. (t1, t2)) fb k es s)
     = foldl jacobson (estimator s) (confirmed_samples now t1 fb es)
   \<and> score (cull_loop now (\<lambda>k. (t1, t2)) fb k es s) = score s
   \<and> flagging (cull_loop now (\<lambda>k. (t1, t2)) fb k es s) = flagging s"
proof (induction es arbitrary: s k)
  case Nil
  then show ?case by (simp add: confirmed_samples_def)
next
  case (Cons i rest)
  define s1 where "s1 =
    (if get_validity t1 fb i = Correct
     then update_echo_timeout (double_of_u64 (now - elem_prediction_time i)) s else s)"
  define s2 where "s2 =
    (if get_validity t2 fb i \<noteq> Pending then s1 else s1\<lparr>elements := elements s1 @ [i]\<rparr>)"
  have step: "cull_loop now (\<lambda>k. (t1, t2)) fb k (i # rest) s
      = cull_loop now (\<lambda>k. (t1, t2)) fb (Suc k) rest s2"
    by (simp add: s1_def s2_def Let_def)
  have e1: "estimator s1 = foldl jacobson (estimator s) (confirmed_samples now t1 fb [i])"
    "elements s1 = elements s" "score s1 = score s" "flagging s1 = flagging s"
    by (simp_all add: s1_def confirmed_samples_def update_echo_timeout_estimator
        update_echo_timeout_frame)
  have e2: "estimator s2 = estimator s1" "score s2 = score s1" "flagging s2 = flagging s1"
    "elements s2 = elements s1 @ filter (\<lambda>e. get_validity t2 fb e = Pending) [i]"
    by (simp_all add: s2_def estimator_def)
  have c: "confirmed_samples now t1 fb (i # rest)
      = confirmed_samples now t1 fb [i] @ confirmed_samples now t1 fb rest"
    by (simp add: confirmed_samples_def)
  show ?case
    unfolding step using Cons.IH [of "Suc k" s2] by (simp add: e1 e2 c)
qed

text \<open>
  Claim C7, as amended. When the clock reads the same, \<open>t\<close>, at every \<^verbatim>\<open>get_validity\<close> of
  the call, \<^verbatim>\<open>cull\<close> keeps exactly the elements that are \<open>Pending\<close>, in their order, so
  every element left is \<open>Pending\<close>; it feeds \<open>R = now - prediction_time\<close>, converted to
  double, of every \<open>Correct\<close> element, in order, into the estimator, which follows the
  recurrence of the specification with every operation rounded to double precision
  (\<open>jacobson\<close>); afterwards \<open>flagging\<close> is true when \<open>SRTT > 150\<close>, false when \<open>SRTT < 100\<close>
  and unchanged in between; the score is untouched.
\<close>

theorem cull_spec:
  "elements (cull now (\<lambda>k. (t, t)) fb s)
     = filter (\<lambda>e. get_validity t fb e = Pending) (elements s)
   \<and> (\<forall>e \<in> set (elements (cull now (\<lambda>k. (t, t)) fb s)). get_validity t fb e = Pending)
   \<and> estimator (cull now (\<lambda>k. (t, t)) fb s)
     = foldl jacobson (estimator s) (confirmed_samples now t fb (elements s))
   \<and> flagging (cull now (\<lambda>k. (t, t)) fb s) =
       (if SRTT (cull now (\<lambda>k. (t, t)) fb s) > 150 then True
        else if SRTT (cull now (\<lambda>k. (t, t)) fb s) < 100 then False
        else flagging s)
   \<and> score (cull now (\<lambda>k. (t, t)) fb s) = score s"
proof -
  define s1 where "s1 = cull_loop now (\<lambda>k. (t, t)) fb 0 (elements s) (s\<lparr>elements := []\<rparr>)"
  have l: "elements s1 = filter (\<lambda>e. get_validity t fb e = Pending) (elements s)"
    "estimator s1 = foldl jacobson (estimator s) (confirmed_samples now t fb (elements s))"
    "score s1 = score s" "flagging s1 = flagging s"
    using cull_loop_spec [of now t t fb 0 "elements s" "s\<lparr>elements := []\<rparr>"]
    by (simp_all add: s1_def estimator_def)
  have c: "cull now (\<lambda>k. (t, t)) fb s =
      (if SRTT s1 > 150 then s1\<lparr>flagging := True\<rparr>
       else if SRTT s1 < 100 then s1\<lparr>flagging := False\<rparr> else s1)"
    by (simp add: cull_def s1_def Let_def)
  have e: "elements (cull now (\<lambda>k. (t, t)) fb s) = elements s1"
    "estimator (cull now (\<lambda>k. (t, t)) fb s) = estimator s1"
    "score (cull now (\<lambda>k. (t, t)) fb s) = score s1"
    "SRTT (cull now (\<lambda>k. (t, t)) fb s) = SRTT s1"
    by (simp_all add: c estimator_def)
  have f: "flagging (cull now (\<lambda>k. (t, t)) fb s) =
       (if SRTT s1 > 150 then True else if SRTT s1 < 100 then False else flagging s1)"
    by (simp add: c)
  show ?thesis
    using l e f by simp
qed

text \<open>
  With the first typed cell echoed at clock 12, ten milliseconds after its prediction:
  the cell is removed, the first measurement gives \<open>SRTT = 10\<close> and \<open>RTTVAR = 5\<close>, the two
  pending elements stay. At clock 215 everything has expired; the echoed cell gives a
  sample of 213 ms, above the threshold, and flagging is switched on.
\<close>

theorem cull_spec_witness:
  "elements (cull 12 (\<lambda>k. (12, 12)) (set_cell (screen 3 7) 3 7 (letter 97))
     (idle [CCM (new_CursorMove 0 20 3 9), COC (typed 2 20 3 7 97 blank),
            COC (typed 4 20 3 8 98 blank)] 4))
     = [CCM (new_CursorMove 0 20 3 9), COC (typed 4 20 3 8 98 blank)]
   \<and> estimator (cull 12 (\<lambda>k. (12, 12)) (set_cell (screen 3 7) 3 7 (letter 97))
     (idle [CCM (new_CursorMove 0 20 3 9), COC (typed 2 20 3 7 97 blank),
            COC (typed 4 20 3 8 98 blank)] 4)) = (10, 5, True)
   \<and> cull 215 (\<lambda>k. (215, 215)) (set_cell (screen 3 7) 3 7 (letter 97))
     (idle [CCM (new_CursorMove 0 20 3 9), COC (typed 2 20 3 7 97 blank),
            COC (typed 4 20 3 8 98 blank)] 4)
     = \<lparr>elements = [], score = 4, SRTT = 213, RTTVAR = 213 / 2, RTT_hit = True,
        flagging = True\<rparr>"
proof -
  let ?fb = "set_cell (screen 3 7) 3 7 (letter 97)"
  let ?s = "idle [CCM (new_CursorMove 0 20 3 9), COC (typed 2 20 3 7 97 blank),
                  COC (typed 4 20 3 8 98 blank)] 4"
  have d: "double_of_u64 10 = 10" "ddiv 10 2 = 5" "double_of_u64 213 = 213"
    "ddiv 213 2 = 213 / 2"
    by (simp_all add: double_eval)
  have a: "elements (cull 12 (\<lambda>k. (12, 12)) ?fb ?s)
      = [CCM (new_CursorMove 0 20 3 9), COC (typed 4 20 3 8 98 blank)]"
    "estimator (cull 12 (\<lambda>k. (12, 12)) ?fb ?s) = (10, 5, True)"
    using cull_spec [of 12 12 ?fb ?s]
    by (simp_all add: idle_def screen_def set_cell_def get_cell_def typed_def letter_def
        blank_def new_CursorMove_def ConditionalCursorMove_get_validity_def
        ConditionalOverlayCell_get_validity_def confirmed_samples_def estimator_def
        jacobson_def d)
  have b: "cull 215 (\<lambda>k. (215, 215)) ?fb ?s
      = \<lparr>elements = [], score = 4, SRTT = 213, RTTVAR = 213 / 2, RTT_hit = True,
         flagging = True\<rparr>"
    by (simp add: cull_def update_echo_timeout_def idle_def screen_def set_cell_def
        get_cell_def typed_def letter_def blank_def new_CursorMove_def
        ConditionalCursorMove_get_validity_def ConditionalOverlayCell_get_validity_def d)
  show ?thesis using a b by simp
qed

text \<open>
  The claim as stated, with the recurrence over the reals, fails: the code computes in
  double precision. After the sixteen samples of \<open>seasoned\<close>, all of them exact, \<open>SRTT\<close>
  fills the 53 bits of a double; the next sample of 100 ms, from a cell echoed on the
  screen, gives the \<open>SRTT\<close> of the recurrence rounded to the nearest double.
\<close>

lemma seasoned_state:
  "seasoned es =
     \<lparr>elements = es, score = 0, SRTT = 3534986678625937 / 35184372088832,
      RTTVAR = 21199044895851 / 17592186044416, RTT_hit = True, flagging = False\<rparr>"
  unfolding seasoned_def fed_def idle_def
  apply (simp add: update_echo_timeout_def Let_def double_consts)
  apply (simp add: double_eval)
  done

theorem cull_counterexample:
  "get_validity 10000 (set_cell (screen 3 8) 3 7 (letter 97))
       (COC (typed 9900 10100 3 7 97 blank)) = Correct
   \<and> SRTT (cull 10000 (\<lambda>k. (10000, 10000)) (set_cell (screen 3 8) 3 7 (letter 97))
             (seasoned [COC (typed 9900 10100 3 7 97 blank)]))
       = 3532917994908095 / 35184372088832
   \<and> (7 / 8) * SRTT (seasoned [COC (typed 9900 10100 3 7 97 blank)]) + (1 / 8) * 100
       = 28263343959264759 / 281474976710656
   \<and> estimator (cull 10000 (\<lambda>k. (10000, 10000)) (set_cell (screen 3 8) 3 7 (letter 97))
             (seasoned [COC (typed 9900 10100 3 7 97 blank)]))
       \<noteq> jacobson_exact (estimator (seasoned [COC (typed 9900 10100 3 7 97 blank)])) 100"
proof -
  let ?fb = "set_cell (screen 3 8) 3 7 (letter 97)"
  let ?e = "COC (typed 9900 10100 3 7 97 blank)"
  have v: "get_validity 10000 ?fb ?e = Correct"
    by (simp add: screen_def set_cell_def get_cell_def typed_def letter_def blank_def
        ConditionalOverlayCell_get_validity_def)
  have r: "double_of_u64 100 = 100"
    by (simp add: double_eval)
  have u: "update_echo_timeout 100
        \<lparr>elements = es, score = 0, SRTT = 3534986678625937 / 35184372088832,
         RTTVAR = 21199044895851 / 17592186044416, RTT_hit = True, flagging = False\<rparr>
      = \<lparr>elements = es, score = 0, SRTT = 3532917994908095 / 35184372088832,
         RTTVAR = 143743739117843 / 140737488355328, RTT_hit = True, flagging = False\<rparr>"
    for es
    apply (simp add: update_echo_timeout_def Let_def double_consts)
    apply (simp add: double_eval)
    done
  have c: "cull 10000 (\<lambda>k. (10000, 10000)) ?fb (seasoned [?e])
      = \<lparr>elements = [], score = 0, SRTT = 3532917994908095 / 35184372088832,
         RTTVAR = 143743739117843 / 140737488355328, RTT_hit = True, flagging = False\<rparr>"
    unfolding cull_def using v
    by (simp add: seasoned_state typed_def r u Let_def)
  show ?thesis
    using v c by (simp add: seasoned_state estimator_def jacobson_exact_def)
qed

text \<open>
  Apart from the arithmetic, the two \<^verbatim>\<open>get_validity\<close> calls on an element read the clock
  separately. When it ticks between them from 1219 to 1220, where the cursor move
  expires with the cursor at its target, the element is \<open>Pending\<close> for the estimator and
  \<open>Correct\<close> for the removal: it is removed and no sample is fed.
\<close>

lemma cull_clock_tick:
  "get_validity 1219 (screen 3 11) (CCM (new_CursorMove 420 1220 3 11)) = Pending
   \<and> get_validity 1220 (screen 3 11) (CCM (new_CursorMove 420 1220 3 11)) = Correct
   \<and> cull 1219 (\<lambda>k. (1219, 1220)) (screen 3 11)
        (settled\<lparr>elements := [CCM (new_CursorMove 420 1220 3 11)]\<rparr>) = settled"
  by (simp add: cull_def settled_def screen_def new_CursorMove_def
      ConditionalCursorMove_get_validity_def)

section \<open>The length of a prediction\<close>

lemma int_of_u64_small:
  assumes "w \<le> 2000"
  shows "int_of_u64 w = uint w"
proof -
  have u: "uint w \<le> 2000"
    using assms by (simp add: word_le_def)
  have m: "uint (ucast w :: 32 word) = uint w"
    using u by (simp add: unsigned_ucast_eq take_bit_eq_mod)
  have "sint (ucast w :: 32 word) = signed_take_bit 31 (uint w)"
    using m by (simp add: sint_uint)
  also have "\<dots> = uint w"
  proof (rule signed_take_bit_int_eq_self)
    have "- (2 ^ 31) \<le> (0 :: int)" by simp
    then show "- (2 ^ 31) \<le> uint w" using uint_ge_0 [of w] by (rule order_trans)
    show "uint w < 2 ^ 31" using u by simp
  qed
  finally show ?thesis
    by (simp add: int_of_u64_def)
qed

lemma clamp_RTO:
  fixes RTO :: u64
  shows "int_of_u64 (if RTO < 20 then 20 else if RTO > 2000 then 2000 else RTO)
           = max 20 (min 2000 (uint RTO))"
proof -
  define RTO1 :: u64 where "RTO1 = (if RTO < 20 then 20 else if RTO > 2000 then 2000 else RTO)"
  have b: "RTO1 \<le> 2000"
    by (simp add: RTO1_def not_less)
  have "uint RTO1 = max 20 (min 2000 (uint RTO))"
    by (simp add: RTO1_def word_less_def)
  then show ?thesis
    using int_of_u64_small [OF b] by (simp add: RTO1_def)
qed

lemma prediction_len_range:
  "20 \<le> prediction_len E s \<and> prediction_len E s \<le> 2000"
  unfolding prediction_len_def Let_def clamp_RTO by simp

lemma prediction_len_formula:
  assumes "0 \<le> SRTT s" "0 \<le> RTTVAR s"
    and "\<lceil>dadd (dmul 1.25 (SRTT s)) (dmul 8 (RTTVAR s))\<rceil> < 2 ^ 63"
  shows "prediction_len E s
           = max 20 (min 2000 \<lceil>dadd (dmul 1.25 (SRTT s)) (dmul 8 (RTTVAR s))\<rceil>)"
proof -
  define x where "x = \<lceil>dadd (dmul 1.25 (SRTT s)) (dmul 8 (RTTVAR s))\<rceil>"
  have "0 \<le> dadd (dmul 1.25 (SRTT s)) (dmul 8 (RTTVAR s))"
    unfolding dadd_def dmul_def using assms(1,2)
    by (intro binary64_nonneg add_nonneg_nonneg mult_nonneg_nonneg) simp_all
  then have x0: "0 \<le> x"
    unfolding x_def by (simp only: zero_le_ceiling)
  have x1: "x < 2 ^ 63" using assms(3) unfolding x_def .
  have lc: "lrint_ceil E (dadd (dmul 1.25 (SRTT s)) (dmul 8 (RTTVAR s))) = x"
    unfolding lrint_ceil_def x_def [symmetric] using x0 x1 by simp
  have ur: "uint (word_of_int x :: u64) = x"
    using x0 x1 by (simp add: uint_word_of_int take_bit_eq_mod)
  show ?thesis
    unfolding prediction_len_def Let_def clamp_RTO lc unfolding ur unfolding x_def
    by (rule refl)
qed

lemma update_echo_timeout_nonneg:
  assumes "0 \<le> R" and "RTT_hit s \<longrightarrow> 0 \<le> SRTT s \<and> 0 \<le> RTTVAR s"
  shows "0 \<le> SRTT (update_echo_timeout R s) \<and> 0 \<le> RTTVAR (update_echo_timeout R s)
         \<and> RTT_hit (update_echo_timeout R s)"
proof (cases "RTT_hit s")
  case False
  have "0 \<le> ddiv R 2"
    unfolding ddiv_def using assms(1) by (intro binary64_nonneg) simp
  then show ?thesis
    using False assms(1) by (simp add: update_echo_timeout_def)
next
  case True
  then have p: "0 \<le> SRTT s" "0 \<le> RTTVAR s"
    using assms(2) by simp_all
  have v: "0 \<le> dadd (dmul (3 / 4) (RTTVAR s)) (dmul (1 / 4) \<bar>dsub (SRTT s) R\<bar>)"
    unfolding dadd_def dmul_def using p(2)
    by (intro binary64_nonneg add_nonneg_nonneg) simp_all
  have m: "0 \<le> dadd (dmul (7 / 8) (SRTT s)) (dmul (1 / 8) R)"
    unfolding dadd_def dmul_def using p(1) assms(1)
    by (intro binary64_nonneg add_nonneg_nonneg) simp_all
  show ?thesis
    using True v m by (simp add: update_echo_timeout_def Let_def double_consts)
qed

lemma fed_nonneg:
  assumes "\<forall>R \<in> set Rs. 0 \<le> R" and "0 \<le> SRTT s0 \<and> 0 \<le> RTTVAR s0"
  shows "0 \<le> SRTT (fed s0 Rs) \<and> 0 \<le> RTTVAR (fed s0 Rs)"
  using assms
proof (induction Rs arbitrary: s0)
  case Nil
  then show ?case by (simp add: fed_def)
next
  case (Cons R Rs)
  have "0 \<le> SRTT (update_echo_timeout R s0) \<and> 0 \<le> RTTVAR (update_echo_timeout R s0)"
    using update_echo_timeout_nonneg [of R s0] Cons.prems by simp
  then have "0 \<le> SRTT (fed (update_echo_timeout R s0) Rs)
      \<and> 0 \<le> RTTVAR (fed (update_echo_timeout R s0) Rs)"
    using Cons.IH [of "update_echo_timeout R s0"] Cons.prems by simp
  then show ?case by (simp add: fed_def)
qed

lemma fed_nonneg_first:
  assumes "\<forall>R \<in> set Rs. 0 \<le> R" and "\<not> RTT_hit s0" and "Rs \<noteq> []"
  shows "0 \<le> SRTT (fed s0 Rs) \<and> 0 \<le> RTTVAR (fed s0 Rs)"
proof (cases Rs)
  case Nil
  then show ?thesis using assms(3) by simp
next
  case (Cons R Rs')
  have "0 \<le> SRTT (update_echo_timeout R s0) \<and> 0 \<le> RTTVAR (update_echo_timeout R s0)"
    using update_echo_timeout_nonneg [of R s0] assms(1,2) Cons by simp
  then have "0 \<le> SRTT (fed (update_echo_timeout R s0) Rs')
      \<and> 0 \<le> RTTVAR (fed (update_echo_timeout R s0) Rs')"
    using fed_nonneg [of Rs' "update_echo_timeout R s0"] assms(1) Cons by simp
  then show ?thesis using Cons by (simp add: fed_def)
qed

text \<open>
  Claim C10, as amended. For every engine \<open>s0\<close> and every history \<open>Rs\<close> of samples fed
  into the estimator, \<^verbatim>\<open>prediction_len\<close> lies in \<open>[20, 2000]\<close>, whatever \<^verbatim>\<open>lrint\<close> returns
  outside the range of \<^verbatim>\<open>long\<close>. When the samples are non-negative (and the engine starts
  either with non-negative \<open>SRTT\<close> and \<open>RTTVAR\<close> or with no measurement and at least one
  sample follows), and the rounded value is in the range of \<^verbatim>\<open>long\<close>, where C defines
  \<^verbatim>\<open>lrint\<close>, the result is the ceiling of \<open>1.25 SRTT + 8 RTTVAR\<close> as the code computes it,
  the two products and the sum each rounded to double precision, clamped to
  \<open>[20, 2000]\<close>.
\<close>

theorem prediction_len_spec:
  "20 \<le> prediction_len E (fed s0 Rs) \<and> prediction_len E (fed s0 Rs) \<le> 2000
   \<and> ((\<forall>R \<in> set Rs. 0 \<le> R)
        \<and> (0 \<le> SRTT s0 \<and> 0 \<le> RTTVAR s0 \<or> \<not> RTT_hit s0 \<and> Rs \<noteq> [])
        \<and> \<lceil>dadd (dmul 1.25 (SRTT (fed s0 Rs))) (dmul 8 (RTTVAR (fed s0 Rs)))\<rceil> < 2 ^ 63
       \<longrightarrow> prediction_len E (fed s0 Rs)
             = max 20 (min 2000
                 \<lceil>dadd (dmul 1.25 (SRTT (fed s0 Rs))) (dmul 8 (RTTVAR (fed s0 Rs)))\<rceil>))"
proof -
  have "0 \<le> SRTT (fed s0 Rs) \<and> 0 \<le> RTTVAR (fed s0 Rs)"
    if "\<forall>R \<in> set Rs. 0 \<le> R"
      and "0 \<le> SRTT s0 \<and> 0 \<le> RTTVAR s0 \<or> \<not> RTT_hit s0 \<and> Rs \<noteq> []"
    using that fed_nonneg [of Rs s0] fed_nonneg_first [of Rs s0] by blast
  then show ?thesis
    using prediction_len_range [of E "fed s0 Rs"] prediction_len_formula [of "fed s0 Rs" E]
    by blast
qed

text \<open>
  Samples of 10 and 30 ms give \<open>SRTT = 12.5\<close> and \<open>RTTVAR = 8.75\<close>, hence 86 ms; one
  sample of 0 ms is clamped up to 20; the start values 1000 and 500 are clamped down.
\<close>

lemma fed_examples:
  "fed (idle [] 0) [10, 30]
     = \<lparr>elements = [], score = 0, SRTT = 12.5, RTTVAR = 8.75, RTT_hit = True, flagging = False\<rparr>"
  "fed (idle [] 0) [0]
     = \<lparr>elements = [], score = 0, SRTT = 0, RTTVAR = 0, RTT_hit = True, flagging = False\<rparr>"
  "fed (idle [] 0) []
     = \<lparr>elements = [], score = 0, SRTT = 1000, RTTVAR = 500, RTT_hit = False, flagging = False\<rparr>"
proof -
  have d: "ddiv 10 2 = 5" "dsub 10 30 = - 20" "dmul (1 / 4) 20 = 5" "dmul (3 / 4) 5 = 15 / 4"
    "dadd (15 / 4) 5 = 35 / 4" "dmul (7 / 8) 10 = 35 / 4" "dmul (1 / 8) 30 = 15 / 4"
    "dadd (35 / 4) (15 / 4) = 25 / 2" "ddiv 0 2 = 0"
    by (simp_all add: double_eval)
  show "fed (idle [] 0) [10, 30]
     = \<lparr>elements = [], score = 0, SRTT = 12.5, RTTVAR = 8.75, RTT_hit = True, flagging = False\<rparr>"
    by (simp add: fed_def idle_def update_echo_timeout_def Let_def double_consts d)
  show "fed (idle [] 0) [0]
     = \<lparr>elements = [], score = 0, SRTT = 0, RTTVAR = 0, RTT_hit = True, flagging = False\<rparr>"
    by (simp add: fed_def idle_def update_echo_timeout_def d)
  show "fed (idle [] 0) []
     = \<lparr>elements = [], score = 0, SRTT = 1000, RTTVAR = 500, RTT_hit = False, flagging = False\<rparr>"
    by (simp add: fed_def idle_def)
qed

theorem prediction_len_spec_witness:
  "prediction_len (plain_env False) (fed (idle [] 0) [10, 30]) = 86
   \<and> prediction_len (plain_env False) (fed (idle [] 0) [0]) = 20
   \<and> prediction_len (plain_env False) (fed (idle [] 0) []) = 2000"
  using prediction_len_spec [of "plain_env False" "idle [] 0" "[10, 30]"]
    prediction_len_spec [of "plain_env False" "idle [] 0" "[0]"]
    prediction_len_spec [of "plain_env False" "idle [] 0" "[]"]
  unfolding fed_examples
  by (simp add: idle_def double_eval)

text \<open>
  The claim as stated, with the sum over the reals, fails on a steady connection. After
  136 round trips of 200 ms, \<open>SRTT\<close> is 200 and \<open>RTTVAR\<close> has decayed to about \<open>1.36e-15\<close>;
  \<open>8 RTTVAR\<close> is less than half the spacing of the doubles at 250, the sum in double
  precision is 250 and the prediction lasts 250 ms, while the ceiling of the exact sum
  is 251.
\<close>

lemma update_echo_timeout_steady:
  assumes "RTT_hit s" and "SRTT s = 200"
  shows "update_echo_timeout 200 s = s\<lparr>RTTVAR := decay (RTTVAR s)\<rparr>"
proof -
  have d: "dsub 200 200 = 0" "dmul (1 / 4) 0 = 0" "dmul (7 / 8) 200 = 175"
    "dmul (1 / 8) 200 = 25" "dadd 175 25 = 200"
    by (simp_all add: double_eval)
  show ?thesis
    using assms by (cases s) (simp add: update_echo_timeout_def Let_def double_consts d decay_def)
qed

lemma fed_steady:
  assumes "RTT_hit s" and "SRTT s = 200"
  shows "fed s steady
    = s\<lparr>RTTVAR := decay (decay (decay (decay (decay (decay (decay (decay (decay (RTTVAR s)))))))))\<rparr>"
  using assms by (cases s) (simp add: fed_def steady_def update_echo_timeout_steady)

lemma fed_append: "fed s (xs @ ys) = fed (fed s xs) ys"
  by (simp add: fed_def)

lemma decay_1:
  "decay (decay (decay (decay (decay (decay (decay (decay (decay (100)))))))))
     = 492075 / 65536"
  by (simp add: decay_def double_eval)

lemma decay_2:
  "decay (decay (decay (decay (decay (decay (decay (decay (decay (492075 / 65536)))))))))
     = 9685512225 / 17179869184"
  by (simp add: decay_def double_eval)

lemma decay_3:
  "decay (decay (decay (decay (decay (decay (decay (decay (decay (9685512225 / 17179869184)))))))))
     = 190639937124675 / 4503599627370496"
  by (simp add: decay_def double_eval)

lemma decay_4:
  "decay (decay (decay (decay (decay (decay (decay (decay (decay (190639937124675 / 4503599627370496)))))))))
     = 7328839614111285 / 2305843009213693952"
  by (simp add: decay_def double_eval)

lemma decay_5:
  "decay (decay (decay (decay (decay (decay (decay (decay (decay (7328839614111285 / 2305843009213693952)))))))))
     = 8804537971469265 / 36893488147419103232"
  by (simp add: decay_def double_eval)

lemma decay_6:
  "decay (decay (decay (decay (decay (decay (decay (decay (decay (8804537971469265 / 36893488147419103232)))))))))
     = 2644343885687707 / 147573952589676412928"
  by (simp add: decay_def double_eval)

lemma decay_7:
  "decay (decay (decay (decay (decay (decay (decay (decay (decay (2644343885687707 / 147573952589676412928)))))))))
     = 1588397848571507 / 1180591620717411303424"
  by (simp add: decay_def double_eval)

lemma decay_8:
  "decay (decay (decay (decay (decay (decay (decay (decay (decay (1588397848571507 / 1180591620717411303424)))))))))
     = 7632918665388909 / 75557863725914323419136"
  by (simp add: decay_def double_eval)

lemma decay_9:
  "decay (decay (decay (decay (decay (decay (decay (decay (decay (7632918665388909 / 75557863725914323419136)))))))))
     = 4584922427088925 / 604462909807314587353088"
  by (simp add: decay_def double_eval)

lemma decay_10:
  "decay (decay (decay (decay (decay (decay (decay (decay (decay (4584922427088925 / 604462909807314587353088)))))))))
     = 2754059696423075 / 4835703278458516698824704"
  by (simp add: decay_def double_eval)

lemma decay_11:
  "decay (decay (decay (decay (decay (decay (decay (decay (decay (2754059696423075 / 4835703278458516698824704)))))))))
     = 3308603332806115 / 77371252455336267181195264"
  by (simp add: decay_def double_eval)

lemma decay_12:
  "decay (decay (decay (decay (decay (decay (decay (decay (decay (3308603332806115 / 77371252455336267181195264)))))))))
     = 7949614184524263 / 2475880078570760549798248448"
  by (simp add: decay_def double_eval)

lemma decay_13:
  "decay (decay (decay (decay (decay (decay (decay (decay (decay (7949614184524263 / 2475880078570760549798248448)))))))))
     = 4775154296691621 / 19807040628566084398385987584"
  by (simp add: decay_def double_eval)

lemma decay_14:
  "decay (decay (decay (decay (decay (decay (decay (decay (decay (4775154296691621 / 19807040628566084398385987584)))))))))
     = 5736655396837231 / 316912650057057350374175801344"
  by (simp add: decay_def double_eval)

lemma decay_15:
  "decay (decay (decay (decay (decay (decay (decay (decay (decay (5736655396837231 / 316912650057057350374175801344)))))))))
     = 1722939883055835 / 1267650600228229401496703205376"
  by (simp add: decay_def double_eval)

lemma fed_steady_state:
  "fed (idle es sc) (replicate 136 200)
     = \<lparr>elements = es, score = sc, SRTT = 200,
        RTTVAR = 1722939883055835 / 1267650600228229401496703205376,
        RTT_hit = True, flagging = False\<rparr>"
proof -
  have h: "replicate 136 (200 :: real)
      = [200] @ steady @ steady @ steady @ steady @ steady @ steady @ steady @ steady
          @ steady @ steady @ steady @ steady @ steady @ steady @ steady"
    by (simp add: steady_def numeral_eq_Suc)
  have d: "ddiv 200 2 = 100"
    by (simp add: double_eval)
  have f: "fed (idle es sc) [200]
      = \<lparr>elements = es, score = sc, SRTT = 200, RTTVAR = 100, RTT_hit = True,
         flagging = False\<rparr>"
    by (simp add: fed_def idle_def update_echo_timeout_def d)
  show ?thesis
    unfolding h
    by (simp only: fed_append f) (simp add: fed_steady decay_1 decay_2 decay_3 decay_4 decay_5 decay_6
        decay_7 decay_8 decay_9 decay_10 decay_11 decay_12 decay_13 decay_14 decay_15)
qed

theorem prediction_len_counterexample:
  "prediction_len (plain_env False) (fed (idle [] 0) (replicate 136 200)) = 250
   \<and> max 20 (min 2000 \<lceil>1.25 * SRTT (fed (idle [] 0) (replicate 136 200))
                          + 8 * RTTVAR (fed (idle [] 0) (replicate 136 200))\<rceil>) = 251"
proof -
  have a: "dadd (dmul (5 / 4) 200) (dmul 8 (1722939883055835 / 1267650600228229401496703205376))
      = 250"
    by (simp add: double_eval)
  have "prediction_len (plain_env False) (fed (idle [] 0) (replicate 136 200)) = 250"
    unfolding fed_steady_state prediction_len_def
    by (simp add: a lrint_ceil_def int_of_u64_def)
  moreover have "\<lceil>1.25 * SRTT (fed (idle [] 0) (replicate 136 200))
                   + 8 * RTTVAR (fed (idle [] 0) (replicate 136 200))\<rceil> = (251 :: int)"
    unfolding fed_steady_state by (simp add: ceiling_unique)
  ultimately show ?thesis by simp
qed

section \<open>A keystroke of the user\<close>

lemma signed_byte:
  fixes n :: int
  assumes "0 \<le> n" and "n < 256"
  shows "signed_take_bit 7 n = (if n < 128 then n else n - 256)"
proof -
  have e: "signed_take_bit 7 n = (n + 128) mod 256 - 128"
    by (simp add: signed_take_bit_eq_take_bit_shift take_bit_eq_mod)
  show ?thesis
  proof (cases "n < 128")
    case True
    then have "(n + 128) mod 256 = n + 128"
      using assms by simp
    then show ?thesis using e True by simp
  next
    case False
    have h: "n + 128 = (n - 128) + 256"
      by arith
    have "(n + 128) mod 256 = ((n - 128) + 256) mod 256"
      by (simp only: h)
    also have "\<dots> = (n - 128) mod 256"
      by (rule mod_add_self2)
    also have "\<dots> = n - 128"
      using False assms by simp
    finally show ?thesis using e False by simp
  qed
qed

lemma sint_char:
  fixes b :: "8 word"
  shows "sint b = (if uint b < 128 then uint b else uint b - 256)"
proof -
  have "uint b < 256"
    using uint_lt2p [of b] by simp
  then have "signed_take_bit 7 (uint b) = (if uint b < 128 then uint b else uint b - 256)"
    using uint_ge_0 [of b] by (rule signed_byte [rotated])
  then show ?thesis
    by (simp add: sint_uint)
qed

lemma printable_char:
  fixes b :: "8 word"
  shows "(0x20 \<le> sint b \<and> sint b \<le> 0x7E) = (0x20 \<le> uint b \<and> uint b \<le> 0x7E)"
proof -
  have "uint b < 256"
    using uint_lt2p [of b] by simp
  then show ?thesis
    unfolding sint_char by (cases "uint b < 128") simp_all
qed

lemma printable_char_value:
  fixes b :: "8 word"
  assumes "0x20 \<le> uint b" and "uint b \<le> 0x7E"
  shows "sint b = uint b"
  using assms unfolding sint_char by simp

lemma prediction_len_elements:
  "prediction_len E (s\<lparr>elements := es\<rparr>) = prediction_len E s"
  by (simp add: prediction_len_def)

lemma new_user_byte_front:
  assumes "elements s = CCM ccm # rest"
  shows "new_user_byte E ptime now b fb s = Inr (predicted E ptime now b fb s ccm rest)"
proof (cases "0x20 \<le> uint b \<and> uint b \<le> 0x7E")
  case True
  then have v: "sint b = uint b" by (simp add: printable_char_value)
  show ?thesis
    unfolding new_user_byte_def predicted_def using True assms
    by (auto simp: v Let_def new_ConditionalOverlayCell_def clear_def)
next
  case False
  then have "\<not> (0x20 \<le> sint b \<and> sint b \<le> 0x7E)" using printable_char [of b] by simp
  then show ?thesis
    unfolding new_user_byte_def predicted_def using False assms
    by (auto simp: Let_def clear_def)
qed

lemma new_user_byte_empty:
  assumes "elements s = []"
  shows "new_user_byte E ptime now b fb s =
    new_user_byte E ptime now b fb
      (s\<lparr>elements := [CCM (new_CursorMove ptime (now + word_of_int (prediction_len E s))
                     (get_cursor_row (ds fb)) (get_cursor_col (ds fb)))]\<rparr>)"
  unfolding new_user_byte_def using assms by (simp add: Let_def)

lemma predicted_elements:
  "predicted E ptime now b fb (s\<lparr>elements := es\<rparr>) ccm rest = predicted E ptime now b fb s ccm rest"
  by (simp add: predicted_def prediction_len_elements)

text \<open>
  The keystroke from a list that is empty or has a conditional cursor move at its
  front, the state the assertion of the code expects: \<^verbatim>\<open>new_user_byte\<close> returns normally.
  If the list was empty a cursor move anchored at the framebuffer's cursor, expiring at
  \<open>now + prediction_len\<close>, is put at the front first. With \<open>ccm\<close> the front element and
  \<open>rest\<close> the elements behind it, the engine afterwards is the one the specification
  describes (\<open>predicted\<close>).
\<close>

lemma new_user_byte_from_cursor_move:
  assumes "elements s = [] \<or> (\<exists>c tail. elements s = CCM c # tail)"
  shows "\<exists>ccm rest.
     CCM ccm # rest =
       (if elements s = []
        then [CCM (new_CursorMove ptime (now + word_of_int (prediction_len E s))
                     (get_cursor_row (ds fb)) (get_cursor_col (ds fb)))]
        else elements s)
     \<and> new_user_byte E ptime now b fb s = Inr (predicted E ptime now b fb s ccm rest)"
proof (cases "elements s = []")
  case True
  let ?c = "new_CursorMove ptime (now + word_of_int (prediction_len E s))
              (get_cursor_row (ds fb)) (get_cursor_col (ds fb))"
  have "new_user_byte E ptime now b fb s
      = Inr (predicted E ptime now b fb (s\<lparr>elements := [CCM ?c]\<rparr>) ?c [])"
    unfolding new_user_byte_empty [OF True] by (rule new_user_byte_front) simp
  then have "new_user_byte E ptime now b fb s = Inr (predicted E ptime now b fb s ?c [])"
    by (simp only: predicted_elements)
  then show ?thesis
    using True by (intro exI [of _ ?c] exI [of _ "[]"]) simp
next
  case False
  then obtain c tail where e: "elements s = CCM c # tail"
    using assms by blast
  have "new_user_byte E ptime now b fb s = Inr (predicted E ptime now b fb s c tail)"
    using e by (rule new_user_byte_front)
  then show ?thesis
    using e by (intro exI [of _ c] exI [of _ tail]) simp
qed

lemma plen_idle: "prediction_len (plain_env False) (idle es sc) = 2000"
proof -
  have d: "dadd (dmul (5 / 4) 1000) (dmul 8 500) = 5250"
    by (simp add: double_eval)
  show ?thesis
    by (simp add: prediction_len_def lrint_ceil_def idle_def int_of_u64_def d)
qed

text \<open>
  On the 80 by 24 screen with the cursor at (3, 7) and a prediction length of 2000 ms:
  the first \<open>a\<close> creates the cursor move and one cell; a following \<open>b\<close> appends a cell and
  moves the predicted cursor to column 9; a carriage return clears the engine; so does
  an \<open>a\<close> typed at column 78; and with the predicted cursor below the screen nothing
  changes.
\<close>

lemma new_user_byte_examples:
  "new_user_byte (plain_env False) 100 100 0x61 (screen 3 7) (idle [] 0)
     = Inr (idle [CCM (new_CursorMove 100 2100 3 8), COC (typed 100 2100 3 7 97 blank)] 0)
   \<and> new_user_byte (plain_env False) 150 150 0x62 (screen 3 7)
        (idle [CCM (new_CursorMove 100 2100 3 8), COC (typed 100 2100 3 7 97 blank)] 5)
     = Inr (idle [CCM (new_CursorMove 100 2150 3 9), COC (typed 100 2100 3 7 97 blank),
                  COC (typed 150 2150 3 8 98 blank)] 5)
   \<and> new_user_byte (plain_env False) 150 150 0x0D (screen 3 7)
        (idle [CCM (new_CursorMove 100 2100 3 8), COC (typed 100 2100 3 7 97 blank)] 5)
     = Inr (idle [] 0)
   \<and> new_user_byte (plain_env False) 100 100 0x61 (screen 3 78) (idle [] 5)
     = Inr (idle [] 0)
   \<and> new_user_byte (plain_env False) 150 150 0x61 (screen 3 7)
        (idle [CCM (new_CursorMove 100 2100 24 8)] 5)
     = Inr (idle [CCM (new_CursorMove 100 2100 24 8)] 5)"
  using new_user_byte_from_cursor_move [where s = "idle [] 0" and ptime = 100 and now = 100
        and E = "plain_env False" and fb = "screen 3 7" and b = 97, unfolded predicted_def plen_idle]
    new_user_byte_from_cursor_move [where s = "idle [CCM (new_CursorMove 100 2100 3 8),
        COC (typed 100 2100 3 7 97 blank)] 5" and ptime = 150 and now = 150
        and E = "plain_env False" and fb = "screen 3 7" and b = 98, unfolded predicted_def plen_idle]
    new_user_byte_from_cursor_move [where s = "idle [CCM (new_CursorMove 100 2100 3 8),
        COC (typed 100 2100 3 7 97 blank)] 5" and ptime = 150 and now = 150
        and E = "plain_env False" and fb = "screen 3 7" and b = 13, unfolded predicted_def plen_idle]
    new_user_byte_from_cursor_move [where s = "idle [] 5" and ptime = 100 and now = 100
        and E = "plain_env False" and fb = "screen 3 78" and b = 97, unfolded predicted_def plen_idle]
    new_user_byte_from_cursor_move [where s = "idle [CCM (new_CursorMove 100 2100 24 8)] 5"
        and ptime = 150 and now = 150
        and E = "plain_env False" and fb = "screen 3 7" and b = 97, unfolded predicted_def plen_idle]
  by (simp add: idle_def screen_def new_CursorMove_def typed_def get_cell_def blank_def)

text \<open>The state \<open>settled\<close> and the steps of the run \<open>overtyping\<close>.\<close>

lemma settled_reached:
  assumes "\<not> RTT_hit s"
  shows "estimator (fed s [200, 200]) = (200, 75, True)"
proof -
  have d: "ddiv 200 2 = 100" "dsub 200 200 = 0" "dmul (1 / 4) 0 = 0" "dmul (3 / 4) 100 = 75"
    "dadd 75 0 = 75" "dmul (7 / 8) 200 = 175" "dmul (1 / 8) 200 = 25" "dadd 175 25 = 200"
    by (simp_all add: double_eval)
  show ?thesis
    using assms
    by (simp add: fed_def update_echo_timeout_def estimator_def Let_def double_consts d)
qed

lemma plen_settled:
  "prediction_len (plain_env False) \<lparr>elements = es, score = sc, SRTT = 200, RTTVAR = 75, RTT_hit = True, flagging = True\<rparr> = 850"
proof -
  have d: "dadd (dmul (5 / 4) 200) (dmul 8 75) = 850"
    by (simp add: double_eval)
  show ?thesis
    by (simp add: prediction_len_def lrint_ceil_def int_of_u64_def d)
qed

lemma overtyping_keys: "typing 422 99 (put_line [97] 7 (screen 3 7))
                   (typing 421 98 (put_line [97] 7 (screen 3 7))
                      (typing 420 97 (put_line [97] 7 (screen 3 7)) (Inr settled)))
   = Inr \<lparr>elements = [CCM (new_CursorMove 420 1272 3 10),
                       COC ((typed 420 1270 3 7 97 (letter 97))\<lparr>flag := True\<rparr>),
                       COC ((typed 421 1271 3 8 98 blank)\<lparr>flag := True\<rparr>),
                       COC ((typed 422 1272 3 9 99 blank)\<lparr>flag := True\<rparr>)],
          score = 0, SRTT = 200, RTTVAR = 75, RTT_hit = True, flagging = True\<rparr>"
  by (simp add: typing_def settled_def new_user_byte_def plen_settled Let_def screen_def
      set_cell_def get_cell_def letter_def blank_def typed_def new_CursorMove_def
      new_ConditionalOverlayCell_def)

lemma overtyping_first_redraw: "redraw 621 (put_line [97, 98, 99] 7 (screen 3 10))
    (Inr \<lparr>elements = [CCM (new_CursorMove 420 1272 3 10),
                       COC ((typed 420 1270 3 7 97 (letter 97))\<lparr>flag := True\<rparr>),
                       COC ((typed 421 1271 3 8 98 blank)\<lparr>flag := True\<rparr>),
                       COC ((typed 422 1272 3 9 99 blank)\<lparr>flag := True\<rparr>)],
          score = 0, SRTT = 200, RTTVAR = 75, RTT_hit = True, flagging = True\<rparr>)
   = Inr \<lparr>elements = [CCM (new_CursorMove 420 1272 3 10),
                       COC ((typed 420 1270 3 7 97 (letter 97))\<lparr>flag := True\<rparr>)],
          score = 2, SRTT = 1599 / 8, RTTVAR = 679 / 16, RTT_hit = True, flagging = True\<rparr>"
proof -
  have d: "double_of_u64 200 = 200" "double_of_u64 199 = 199"
    "dsub 200 200 = 0" "dmul (1 / 4) 0 = 0" "dmul (3 / 4) 75 = 225 / 4"
    "dadd (225 / 4) 0 = 225 / 4" "dmul (7 / 8) 200 = 175" "dmul (1 / 8) 200 = 25"
    "dadd 175 25 = 200" "dsub 200 199 = 1" "dmul (1 / 4) 1 = 1 / 4"
    "dmul (3 / 4) (225 / 4) = 675 / 16" "dadd (675 / 16) (1 / 4) = 679 / 16"
    "dmul (1 / 8) 199 = 199 / 8" "dadd 175 (199 / 8) = 1599 / 8"
    by (simp_all add: double_eval)
  show ?thesis
    by (simp add: redraw_def OverlayManager_apply_def NotificationEngine_apply_def quiet_def
        calculate_score_def cull_def update_echo_timeout_def Let_def screen_def
        set_cell_def get_cell_def letter_def blank_def typed_def new_CursorMove_def
        ConditionalCursorMove_get_validity_def ConditionalOverlayCell_get_validity_def
        double_consts d)
qed

lemma overtyping_fourth_key: "typing 630 100 (put_line [97, 98, 99] 7 (screen 3 10))
    (Inr \<lparr>elements = [CCM (new_CursorMove 420 1272 3 10),
                       COC ((typed 420 1270 3 7 97 (letter 97))\<lparr>flag := True\<rparr>)],
          score = 2, SRTT = 1599 / 8, RTTVAR = 679 / 16, RTT_hit = True, flagging = True\<rparr>)
   = Inr \<lparr>elements = [CCM (new_CursorMove 420 1220 3 11),
                       COC ((typed 420 1270 3 7 97 (letter 97))\<lparr>flag := True\<rparr>),
                       COC ((typed 630 1220 3 10 100 blank)\<lparr>flag := True\<rparr>)],
          score = 2, SRTT = 1599 / 8, RTTVAR = 679 / 16, RTT_hit = True, flagging = True\<rparr>"
proof -
  have d: "dadd (dmul (5 / 4) (1599 / 8)) (dmul 8 (679 / 16)) = 18859 / 32"
    by (simp add: double_eval)
  show ?thesis
    by (simp add: typing_def new_user_byte_def prediction_len_def lrint_ceil_def int_of_u64_def
        Let_def screen_def set_cell_def get_cell_def letter_def blank_def typed_def
        new_CursorMove_def new_ConditionalOverlayCell_def d)
qed

lemma overtyping_last_redraws: "redraw 1230 (put_line [97, 98, 99, 100] 7 (screen 3 11))
    (redraw 830 (put_line [97, 98, 99, 100] 7 (screen 3 11))
    (Inr \<lparr>elements = [CCM (new_CursorMove 420 1220 3 11),
                       COC ((typed 420 1270 3 7 97 (letter 97))\<lparr>flag := True\<rparr>),
                       COC ((typed 630 1220 3 10 100 blank)\<lparr>flag := True\<rparr>)],
          score = 2, SRTT = 1599 / 8, RTTVAR = 679 / 16, RTT_hit = True, flagging = True\<rparr>))
   = Inr \<lparr>elements = [COC ((typed 420 1270 3 7 97 (letter 97))\<lparr>flag := True\<rparr>)],
          score = 4, SRTT = 141391 / 512, RTTVAR = 11291 / 64, RTT_hit = True, flagging = True\<rparr>"
proof -
  have d: "double_of_u64 200 = 200" "double_of_u64 810 = 810"
    "dsub (1599 / 8) 200 = - (1 / 8)" "dmul (1 / 4) (1 / 8) = 1 / 32"
    "dmul (3 / 4) (679 / 16) = 2037 / 64" "dadd (2037 / 64) (1 / 32) = 2039 / 64"
    "dmul (7 / 8) (1599 / 8) = 11193 / 64" "dmul (1 / 8) 200 = 25"
    "dadd (11193 / 64) 25 = 12793 / 64" "dsub (12793 / 64) 810 = - (39047 / 64)"
    "dmul (1 / 4) (39047 / 64) = 39047 / 256" "dmul (3 / 4) (2039 / 64) = 6117 / 256"
    "dadd (6117 / 256) (39047 / 256) = 11291 / 64"
    "dmul (7 / 8) (12793 / 64) = 89551 / 512" "dmul (1 / 8) 810 = 405 / 4"
    "dadd (89551 / 512) (405 / 4) = 141391 / 512"
    by (simp_all add: double_eval)
  show ?thesis
    by (simp add: redraw_def OverlayManager_apply_def NotificationEngine_apply_def quiet_def
        calculate_score_def cull_def update_echo_timeout_def Let_def screen_def
        set_cell_def get_cell_def letter_def blank_def typed_def new_CursorMove_def
        ConditionalCursorMove_get_validity_def ConditionalOverlayCell_get_validity_def
        OverlayCell_apply_def double_consts d)
qed

lemma overtyping_result:
  "overtyping
   = Inr \<lparr>elements = [COC ((typed 420 1270 3 7 97 (letter 97))\<lparr>flag := True\<rparr>)],
          score = 4, SRTT = 141391 / 512, RTTVAR = 11291 / 64, RTT_hit = True, flagging = True\<rparr>"
  unfolding overtyping_def overtyping_keys overtyping_first_redraw overtyping_fourth_key
    overtyping_last_redraws by (rule refl)

text \<open>
  Claim C8: for every byte and framebuffer \<^verbatim>\<open>new_user_byte\<close> prepends a cursor move to an
  empty list, does nothing when the predicted cursor is off the screen, appends a cell
  and advances the predicted cursor for a printable byte away from the right edge, and
  clears the list otherwise. The code does none of these in a state the engine reaches
  by typing and redrawing. In the run \<open>overtyping\<close> the prediction length drops from 850
  to 590 ms between the first and the fourth keystroke, so the cursor move (refreshed
  by the fourth) expires at 1220, before the first cell, which expires at 1270 and
  stays pending because the screen showed its character all along. The redraw at 1230
  finds the cursor at the target, counts the cursor move as correct and removes it; the
  cell is left at the front of a list that is not empty. The next keystroke, a
  printable \<open>e\<close> at column 11 of 80, fails the assertion on the front element; in a
  build without assertions it casts the cell to a cursor move.
\<close>

theorem new_user_byte_front_lost:
  "overtyping
     = Inr \<lparr>elements = [COC ((typed 420 1270 3 7 97 (letter 97))\<lparr>flag := True\<rparr>)],
            score = 4, SRTT = 141391 / 512, RTTVAR = 11291 / 64, RTT_hit = True,
            flagging = True\<rparr>
   \<and> typing 1240 101 (put_line [97, 98, 99, 100] 7 (screen 3 11)) overtyping
     = Inl AssertionFailed
   \<and> new_user_byte (plain_env True) 1240 1240 101 (put_line [97, 98, 99, 100] 7 (screen 3 11))
       \<lparr>elements = [COC ((typed 420 1270 3 7 97 (letter 97))\<lparr>flag := True\<rparr>)],
        score = 4, SRTT = 141391 / 512, RTTVAR = 11291 / 64, RTT_hit = True, flagging = True\<rparr>
     = Inl BadCast"
  unfolding overtyping_result
  by (simp add: typing_def new_user_byte_def plain_env_def typed_def)

section \<open>The overlay manager\<close>

lemma draw_bar_ds: "ds (draw_bar bar is fb) = ds fb"
  by (induction "is" arbitrary: fb) (simp_all add: set_cell_def)

lemma draw_bar_cell:
  "get_cell (draw_bar bar is fb) r c =
     (if r = 0 \<and> c \<in> int ` set is then bar else get_cell fb r c)"
  by (induction "is" arbitrary: fb) (auto simp: set_cell_def get_cell_def)

text \<open>
  Claim C1, as amended. Whatever the clock reads during the call, when the score after
  \<^verbatim>\<open>calculate_score\<close> and \<^verbatim>\<open>cull\<close> is at most 3,
  \<^verbatim>\<open>OverlayManager::apply\<close> paints no prediction: the framebuffer it leaves is what
  \<^verbatim>\<open>NotificationEngine::apply\<close> alone makes of \<open>fb\<close>, and it is \<open>fb\<close> itself when the
  notification engine has no element. Only when that score is above 3 are the elements
  left by \<^verbatim>\<open>cull\<close> applied, before the notifications.
\<close>

theorem OverlayManager_apply_gated:
  "(score (cull now ticks fb (calculate_score scored fb (predictions om))) \<le> 3 \<longrightarrow>
      OverlayManager_apply E scored now ticks fb om =
        (case NotificationEngine_apply E fb (notifications om) of
           Inl e \<Rightarrow> Inl e
         | Inr fb2 \<Rightarrow>
             Inr (om\<lparr>predictions := cull now ticks fb (calculate_score scored fb (predictions om))\<rparr>, fb2)))
   \<and> (score (cull now ticks fb (calculate_score scored fb (predictions om))) \<le> 3
        \<and> elements (notifications om) = [] \<longrightarrow>
      OverlayManager_apply E scored now ticks fb om =
        Inr (om\<lparr>predictions := cull now ticks fb (calculate_score scored fb (predictions om))\<rparr>, fb))
   \<and> (score (cull now ticks fb (calculate_score scored fb (predictions om))) > 3 \<longrightarrow>
      OverlayManager_apply E scored now ticks fb om =
        (case OverlayEngine_apply E
                (elements (cull now ticks fb (calculate_score scored fb (predictions om)))) fb of
           Inl e \<Rightarrow> Inl e
         | Inr fb1 \<Rightarrow>
             (case NotificationEngine_apply E fb1 (notifications om) of
                Inl e \<Rightarrow> Inl e
              | Inr fb2 \<Rightarrow>
                  Inr (om\<lparr>predictions := cull now ticks fb (calculate_score scored fb (predictions om))\<rparr>,
                       fb2))))"
  by (simp add: OverlayManager_apply_def Let_def NotificationEngine_apply_def split: sum.splits)

text \<open>
  The claim as stated fails when a notification is showing: with no prediction at all
  and the score 0, the banner is still painted; the cells (0, 0) and (0, 79) of the
  blank screen become the banner cell and the bar.
\<close>

theorem OverlayManager_apply_counterexample:
  "score (cull 100 (\<lambda>k. (100, 100)) (screen 3 7) (calculate_score 100 (screen 3 7) (idle [] 0))) \<le> 3
   \<and> (case OverlayManager_apply (plain_env False) 100 100 (\<lambda>k. (100, 100)) (screen 3 7)
              \<lparr>notifications = notice, predictions = idle [] 0\<rparr> of
         Inl e \<Rightarrow> []
       | Inr (om1, fb1) \<Rightarrow> [get_cell fb1 0 0, get_cell fb1 0 79, get_cell fb1 1 0])
       = [(letter 33)\<lparr>renditions :=
             \<lparr>bold = True, underlined = False, foreground_color = 37, background_color = 44\<rparr>\<rparr>,
          (letter 32)\<lparr>renditions :=
             \<lparr>bold = False, underlined = False, foreground_color = 37, background_color = 44\<rparr>\<rparr>,
          blank]
   \<and> get_cell (screen 3 7) 0 0 = blank \<and> get_cell (screen 3 7) 0 79 = blank
   \<and> blank \<noteq> (letter 32)\<lparr>renditions :=
             \<lparr>bold = False, underlined = False, foreground_color = 37, background_color = 44\<rparr>\<rparr>"
proof -
  have s: "cull 100 (\<lambda>k. (100, 100)) (screen 3 7) (calculate_score 100 (screen 3 7) (idle [] 0))
      = (idle [] 0)\<lparr>flagging := True\<rparr>"
    by (simp add: cull_def calculate_score_def idle_def)
  have w: "nat (get_width (ds (screen 3 7))) = 80" "get_width (ds (screen 3 7)) = 80"
    "get_height (ds (screen 3 7)) = 24" "get_cursor_row (ds (screen 3 7)) = 3"
    by (simp_all add: screen_def)
  have g: "get_cell (screen 3 7) r c = blank" for r c
    by (simp add: screen_def get_cell_def)
  define bar where "bar = (letter 32)\<lparr>renditions :=
             \<lparr>bold = False, underlined = False, foreground_color = 37, background_color = 44\<rparr>\<rparr>"
  define fb1 where "fb1 = draw_bar bar [0 ..< 80] (screen 3 7)"
  have c: "get_cell fb1 r c = (if r = 0 \<and> c \<in> int ` {0 ..< 80} then bar else blank)" for r c
    by (simp add: fb1_def draw_bar_cell g)
  have d: "ds fb1 = ds (screen 3 7)"
    by (simp add: fb1_def draw_bar_ds)
  have n: "NotificationEngine_apply (plain_env False) (screen 3 7) notice
      = Inr (OverlayCell_apply fb1
          \<lparr>expiration_time = 1200, prediction_time = 100, row = 0, col = 0,
              replacement = (letter 33)\<lparr>renditions :=
                 \<lparr>bold = True, underlined = False, foreground_color = 37, background_color = 44\<rparr>\<rparr>,
              flag = False\<rparr>)"
    unfolding NotificationEngine_apply_def w
    by (simp add: notice_def quiet_def plain_env_def Let_def fb1_def bar_def letter_def blank_def d
        draw_bar_ds w)
  have i: "(0::int) \<in> int ` {0 ..< 80}" "(79::int) \<in> int ` {0 ..< 80}"
    by (auto simp: image_iff intro: bexI [of _ 79])
  have a: "OverlayManager_apply (plain_env False) 100 100 (\<lambda>k. (100, 100)) (screen 3 7)
              \<lparr>notifications = notice, predictions = idle [] 0\<rparr>
      = Inr (\<lparr>notifications = notice, predictions = (idle [] 0)\<lparr>flagging := True\<rparr>\<rparr>,
          OverlayCell_apply fb1
          \<lparr>expiration_time = 1200, prediction_time = 100, row = 0, col = 0,
              replacement = (letter 33)\<lparr>renditions :=
                 \<lparr>bold = True, underlined = False, foreground_color = 37, background_color = 44\<rparr>\<rparr>,
              flag = False\<rparr>)"
    unfolding OverlayManager_apply_def by (simp add: s n Let_def) (simp add: idle_def)
  show ?thesis
    unfolding a s
    by (simp add: OverlayCell_apply_def d w c i Let_def g)
      (simp add: get_cell_def set_cell_def c [unfolded get_cell_def] i bar_def idle_def
        letter_def blank_def)
qed

text \<open>
  With no notification and one prediction confirmed by the screen: from the score 2 the
  score becomes 3 and the framebuffer is returned as it came; from the score 3 it
  becomes 4, the cursor moves to the predicted (3, 9) and the pending \<open>b\<close> is painted at
  (3, 8).
\<close>

theorem OverlayManager_apply_gated_witness:
  "(case OverlayManager_apply (plain_env False) 12 12 (\<lambda>k. (12, 12)) (set_cell (screen 3 7) 3 7 (letter 97))
          \<lparr>notifications = quiet False 0 0,
            predictions = idle [CCM (new_CursorMove 0 20 3 9), COC (typed 2 20 3 7 97 blank),
                                COC (typed 4 20 3 8 98 blank)] 2\<rparr> of
      Inl e \<Rightarrow> None
    | Inr (om1, fb1) \<Rightarrow> Some (score (predictions om1), fb1))
     = Some (3, set_cell (screen 3 7) 3 7 (letter 97))
   \<and> (case OverlayManager_apply (plain_env False) 12 12 (\<lambda>k. (12, 12)) (set_cell (screen 3 7) 3 7 (letter 97))
          \<lparr>notifications = quiet False 0 0,
            predictions = idle [CCM (new_CursorMove 0 20 3 9), COC (typed 2 20 3 7 97 blank),
                                COC (typed 4 20 3 8 98 blank)] 3\<rparr> of
      Inl e \<Rightarrow> None
    | Inr (om1, fb1) \<Rightarrow> Some (score (predictions om1), fb1))
     = Some (4, set_cell (set_cell (screen 3 9) 3 7 (letter 97)) 3 8 (letter 98))"
proof -
  let ?fb = "set_cell (screen 3 7) 3 7 (letter 97)"
  let ?es = "[CCM (new_CursorMove 0 20 3 9), COC (typed 2 20 3 7 97 blank),
              COC (typed 4 20 3 8 98 blank)]"
  have d: "double_of_u64 10 = 10" "ddiv 10 2 = 5"
    by (simp_all add: double_eval)
  have p: "cull 12 (\<lambda>k. (12, 12)) ?fb (calculate_score 12 ?fb (idle ?es sc))
      = \<lparr>elements = [CCM (new_CursorMove 0 20 3 9), COC (typed 4 20 3 8 98 blank)],
         score = sc + 1, SRTT = 10, RTTVAR = 5, RTT_hit = True, flagging = False\<rparr>" for sc
    by (simp add: cull_def calculate_score_def idle_def update_echo_timeout_def typed_def
        screen_def set_cell_def get_cell_def letter_def blank_def new_CursorMove_def
        ConditionalCursorMove_get_validity_def ConditionalOverlayCell_get_validity_def d)
  have a: "OverlayEngine_apply (plain_env False)
        [CCM (new_CursorMove 0 20 3 9), COC (typed 4 20 3 8 98 blank)] ?fb
      = Inr (set_cell (set_cell (screen 3 9) 3 7 (letter 97)) 3 8 (letter 98))"
    by (simp add: CursorMove_apply_def OverlayCell_apply_def plain_env_def screen_def
        set_cell_def get_cell_def typed_def letter_def blank_def new_CursorMove_def Let_def)
  show ?thesis
    using OverlayManager_apply_gated [where now = 12 and scored = 12
        and ticks = "\<lambda>k. (12, 12)" and fb = ?fb and E = "plain_env False"
        and om = "\<lparr>notifications = quiet False 0 0, predictions = idle ?es 2\<rparr>"]
      OverlayManager_apply_gated [where now = 12 and scored = 12
        and ticks = "\<lambda>k. (12, 12)" and fb = ?fb and E = "plain_env False"
        and om = "\<lparr>notifications = quiet False 0 0, predictions = idle ?es 3\<rparr>"]
    by (simp add: p a NotificationEngine_apply_def quiet_def del: OverlayEngine_apply.simps)
qed

end
